theory Spec2Isabelle
  imports Complex_Main "HOL-Library.Multiset" "HOL-Library.Log_Nat"
begin

section \<open>Data model of script.js\<close>

text \<open>
  A JavaScript number that is finite is the rational it denotes; the values that are
  no finite number (\<open>undefined\<close>, \<open>NaN\<close>, the infinities) are written as \<open>None\<close> of
  \<open>rat option\<close> where the script can produce them, and the two zeros are one. In
  \<open>addStock\<close>, whose results are stored and merged again, every operation is rounded
  as IEEE 754 rounds a double (\<open>round64\<close> below). In \<open>updateSummary\<close>, \<open>renderTable\<close> and
  \<open>fetchStockData\<close> the operations are those of \<open>rat\<close>, without the rounding.

  A value that comes out of \<open>JSON.parse\<close> (an imported file, the history arrays of the
  provider) is a \<open>jsval\<close>.
\<close>

datatype jsval =
    Undefined
  | Null
  | Bool bool
  | Num rat
  | Str string
  | Arr "jsval list"
  | Obj "(string \<times> jsval) list"

text \<open>An entry of the global \<open>portfolio\<close>, as \<open>addStock\<close> pushes it: \<open>{ symbol, qty, cost }\<close>.\<close>

record stock =
  symbol :: string
  qty :: rat
  cost :: rat

text \<open>
  An entry of the global \<open>stockData\<close>, as \<open>fetchStockData\<close> stores it:
  \<open>{ price, change, history: { timestamp, close } }\<close>. \<open>price\<close> is \<open>None\<close> when the
  provider's \<open>meta\<close> has no \<open>regularMarketPrice\<close> (\<open>undefined\<close>); \<open>change\<close> is \<open>None\<close>
  when the subtraction has an \<open>undefined\<close> operand (\<open>NaN\<close>).
\<close>

record history_series =
  timestamp :: jsval
  close :: jsval

record price_record =
  price :: "rat option"
  change :: "rat option"
  history :: history_series

type_synonym cache = "string \<Rightarrow> price_record option"

text \<open>
  The errors of the script: the rejection of \<open>fetch\<close>, the \<open>SyntaxError\<close> of a JSON parser,
  and the \<open>TypeError\<close> of reading a property of \<open>undefined\<close> or \<open>null\<close> or of calling what
  is no function.
\<close>

datatype js_error = FetchFailed | SyntaxError | TypeError

text \<open>
  What \<open>fetchStockData\<close> reads of the provider's answer. On the path
  \<open>json.chart.result[0]\<close>, \<open>result.meta\<close> and \<open>result.indicators.quote[0]\<close> every step reads a
  property of the step before; \<open>Quote r\<close> is an answer where these steps are objects, with
  the four leaves the script reads: \<open>meta.regularMarketPrice\<close> and
  \<open>meta.chartPreviousClose\<close> (a number, or \<open>None\<close> for \<open>undefined\<close>), \<open>result.timestamp\<close>
  and \<open>quote[0].close\<close> (kept as they are). \<open>Throws e\<close> is an answer on which the \<open>try\<close>
  block throws before it stores anything: \<open>fetch\<close> rejects (\<open>FetchFailed\<close>),
  \<open>response.json()\<close> rejects (\<open>SyntaxError\<close>), or a step of the path is \<open>undefined\<close> or
  \<open>null\<close> (\<open>TypeError\<close>).
\<close>

record quote_result =
  regularMarketPrice :: "rat option"
  chartPreviousClose :: "rat option"
  result_timestamp :: jsval
  quote_close :: jsval

datatype provider_answer = Throws js_error | Quote quote_result

text \<open>
  A request of \<open>fetchStockData\<close>: its symbol, the time it was issued, the time the call
  ended, and the answer it got.
\<close>

record request =
  req_symbol :: string
  issued :: nat
  settled :: nat
  answer :: provider_answer

text \<open>
  The state the script keeps: the globals \<open>portfolio\<close> and \<open>stockData\<close>, the item
  \<open>portfolio\<close> of \<open>localStorage\<close> (\<open>saved\<close>; \<open>None\<close> when it was never written), and what
  the script leaves in its environment: the symbols for which \<open>fetchStockData\<close> was
  called without \<open>await\<close> (\<open>spawned\<close>), the symbols \<open>console.error\<close> reported
  (\<open>console\<close>), the clock in milliseconds (\<open>now\<close>) and the requests that
  \<open>fetchStockData\<close> has made (\<open>requests\<close>).
\<close>

record app =
  portfolio :: "stock list"
  stockData :: cache
  saved :: "stock list option"
  spawned :: "string list"
  console :: "string list"
  now :: nat
  requests :: "request list"

definition app0 :: app where
  "app0 = \<lparr> portfolio = [], stockData = (\<lambda>_. None), saved = None, spawned = [],
            console = [], now = 0, requests = [] \<rparr>"

section \<open>addStock, deleteStock and the form\<close>

text \<open>\<open>portfolio.find(s => s.symbol === symbol)\<close>\<close>

definition find_stock :: "string \<Rightarrow> stock list \<Rightarrow> stock option" where
  "find_stock sy pf = find (\<lambda>s. symbol s = sy) pf"

text \<open>
  \<open>find\<close> returns the first entry with the symbol, and \<open>addStock\<close> assigns to the fields
  of that object: in the array, the first entry with the symbol is the one that changes.
\<close>

fun replace_first :: "('a \<Rightarrow> bool) \<Rightarrow> 'a \<Rightarrow> 'a list \<Rightarrow> 'a list" where
  "replace_first P y [] = []"
| "replace_first P y (x # xs) = (if P x then y # xs else x # replace_first P y xs)"

subsection \<open>The arithmetic of doubles\<close>

text \<open>
  A double is a sign, a significand of 53 bits and an exponent: a multiple of
  \<open>2 ^ e\<close> below \<open>2 ^ 53 * 2 ^ e\<close> in size, with \<open>e\<close> from \<open>-1074\<close> to \<open>971\<close>. The result
  of an operation is the exact result rounded to the nearest double, to the one with
  the even significand when two are as near, and to an infinity from
  \<open>2 ^ 1024 - 2 ^ 970\<close> on.
\<close>

definition pow2 :: "int \<Rightarrow> rat" where
  "pow2 e = 2 powi e"

text \<open>
  For \<open>x\<close> above 0, the \<open>d\<close> with \<open>2 ^ d \<le> x < 2 ^ (d + 1)\<close>: by the bit lengths of
  numerator and denominator it is their difference or one less.
\<close>

definition ilog2 :: "rat \<Rightarrow> int" where
  "ilog2 x =
     (case quotient_of x of
        (p, q) \<Rightarrow> (let d = bitlen p - bitlen q in if pow2 d \<le> x then d else d - 1))"

text \<open>The nearest integer, the even one of two that are as near.\<close>

definition round_even :: "rat \<Rightarrow> int" where
  "round_even x =
     (let f = \<lfloor>x\<rfloor>; r = x - of_int f
      in if r < 1 / 2 then f else if 1 / 2 < r then f + 1 else if even f then f else f + 1)"

text \<open>
  The double nearest to \<open>x\<close>: \<open>m * 2 ^ e\<close>, with \<open>m\<close> up to \<open>2 ^ 53 = 9007199254740992\<close>.
  Below \<open>2 ^ -1022\<close> the doubles are the multiples of \<open>2 ^ -1074\<close>. \<open>None\<close> when the
  result is \<open>2 ^ 1024\<close> or more, which is an infinity: when \<open>e\<close> is above 971, or is 971
  with \<open>m\<close> rounded up to \<open>2 ^ 53\<close>.
\<close>

definition round64 :: "rat \<Rightarrow> rat option" where
  "round64 x =
     (if x = 0 then Some 0
      else (let a = \<bar>x\<bar>;
                e = max (ilog2 a - 52) (- 1074);
                m = round_even (a / pow2 e);
                y = of_int m * pow2 e
            in if 971 < e \<or> (e = 971 \<and> 9007199254740992 \<le> m) then None
               else Some (if x < 0 then - y else y)))"

text \<open>
  \<open>a + b\<close>, \<open>a * b\<close> and \<open>a / b\<close> on doubles. A division by 0 gives \<open>NaN\<close> or an
  infinity.
\<close>

definition fadd :: "rat \<Rightarrow> rat \<Rightarrow> rat option" where
  "fadd a b = round64 (a + b)"

definition fmul :: "rat \<Rightarrow> rat \<Rightarrow> rat option" where
  "fmul a b = round64 (a * b)"

definition fdiv :: "rat \<Rightarrow> rat \<Rightarrow> rat option" where
  "fdiv a b = (if b = 0 then None else round64 (a / b))"

subsection \<open>addStock\<close>

text \<open>
  The new quantity and the new cost of an existing position, as \<open>addStock\<close> computes
  them:
  \<^verbatim>\<open>const totalCostCoordinates = (existing.qty * existing.cost) + (qty * cost);\<close>
  \<^verbatim>\<open>const totalQty = existing.qty + qty;\<close>
  \<^verbatim>\<open>existing.cost = totalCostCoordinates / totalQty;\<close>
  \<open>None\<close> when a result is no finite number: the script then stores \<open>NaN\<close> or an
  infinity in the position.
\<close>

definition merged :: "rat \<Rightarrow> rat \<Rightarrow> rat \<Rightarrow> rat \<Rightarrow> (rat \<times> rat) option" where
  "merged q0 c0 q c =
     (case fmul q0 c0 of
        None \<Rightarrow> None
      | Some a \<Rightarrow>
          (case fmul q c of
             None \<Rightarrow> None
           | Some b \<Rightarrow>
               (case fadd a b of
                  None \<Rightarrow> None
                | Some totalCostCoordinates \<Rightarrow>
                    (case fadd q0 q of
                       None \<Rightarrow> None
                     | Some totalQty \<Rightarrow>
                         (case fdiv totalCostCoordinates totalQty of
                            None \<Rightarrow> None
                          | Some newCost \<Rightarrow> Some (totalQty, newCost))))))"

text \<open>The array after \<open>addStock(symbol, qty, cost)\<close>.\<close>

definition addStock_portfolio :: "string \<Rightarrow> rat \<Rightarrow> rat \<Rightarrow> stock list \<Rightarrow> stock list option" where
  "addStock_portfolio sy q c pf =
     (case find_stock sy pf of
        Some existing \<Rightarrow>
          (case merged (qty existing) (cost existing) q c of
             None \<Rightarrow> None
           | Some (totalQty, newCost) \<Rightarrow>
               Some (replace_first (\<lambda>s. symbol s = sy)
                 (existing\<lparr>cost := newCost, qty := totalQty\<rparr>) pf))
      | None \<Rightarrow> Some (pf @ [\<lparr>symbol = sy, qty = q, cost = c\<rparr>]))"

text \<open>
  \<open>addStock\<close>: the array changes, \<open>saveData()\<close> writes it to \<open>localStorage\<close>, and
  \<open>fetchStockData(symbol)\<close> is called and not awaited.
\<close>

definition addStock :: "string \<Rightarrow> rat \<Rightarrow> rat \<Rightarrow> app \<Rightarrow> app option" where
  "addStock sy q c st =
     (case addStock_portfolio sy q c (portfolio st) of
        None \<Rightarrow> None
      | Some pf \<Rightarrow> Some (st\<lparr>portfolio := pf, saved := Some pf, spawned := spawned st @ [sy]\<rparr>))"

text \<open>A sequence of calls \<open>addStock(symbol, q, c)\<close> for one symbol, one after the other.\<close>

fun addStock_all :: "string \<Rightarrow> (rat \<times> rat) list \<Rightarrow> app \<Rightarrow> app option" where
  "addStock_all sy [] st = Some st"
| "addStock_all sy ((q, c) # ms) st =
     (case addStock sy q c st of None \<Rightarrow> None | Some st' \<Rightarrow> addStock_all sy ms st')"

text \<open>\<open>deleteStock\<close>: \<open>portfolio = portfolio.filter(s => s.symbol !== symbol); saveData()\<close>.\<close>

definition deleteStock :: "string \<Rightarrow> app \<Rightarrow> app" where
  "deleteStock sy st =
     (let pf = filter (\<lambda>s. symbol s \<noteq> sy) (portfolio st)
      in st\<lparr>portfolio := pf, saved := Some pf\<rparr>)"

subsection \<open>The form\<close>

text \<open>
  What the \<open>submit\<close> listener has done when it returns: the state, whether it reached
  \<open>form.reset()\<close>, the error it threw and the messages it showed. The listener has no
  \<open>throw\<close> and no \<open>alert\<close>, and no \<open>else\<close> to its \<open>if\<close>.
\<close>

record submit_outcome =
  state_after :: app
  form_reset :: bool
  thrown :: "js_error option"
  alerted :: "string list"

text \<open>
  The \<open>submit\<close> listener of the form. \<open>ticker\<close> is the constant of that name, the text
  of the field after the built-in \<open>toUpperCase()\<close> and \<open>trim()\<close>; \<open>quantity_value\<close> and
  \<open>cost_value\<close> are what \<open>parseFloat\<close> returned for the two other fields, \<open>None\<close> for
  \<open>NaN\<close> (every comparison with \<open>NaN\<close> is false; an infinity is no rational and is left
  out).
\<close>

definition submit :: "string \<Rightarrow> rat option \<Rightarrow> rat option \<Rightarrow> app \<Rightarrow> submit_outcome option" where
  "submit ticker quantity_value cost_value st =
     (let nothing_done = \<lparr>state_after = st, form_reset = False, thrown = None, alerted = []\<rparr> in
      case quantity_value of
        None \<Rightarrow> Some nothing_done
      | Some quantity \<Rightarrow>
          (case cost_value of
             None \<Rightarrow> Some nothing_done
           | Some cst \<Rightarrow>
               if ticker \<noteq> [] \<and> 0 < quantity \<and> 0 \<le> cst
               then (case addStock ticker quantity cst st of
                       None \<Rightarrow> None
                     | Some st' \<Rightarrow>
                         Some \<lparr>state_after = st', form_reset = True, thrown = None,
                                alerted = []\<rparr>)
               else Some nothing_done))"

section \<open>updateSummary\<close>

text \<open>\<open>const price = stockData[stock.symbol] ? stockData[stock.symbol].price : 0\<close>\<close>

definition price_or_zero :: "cache \<Rightarrow> string \<Rightarrow> rat option" where
  "price_or_zero sd sy = (case sd sy of None \<Rightarrow> Some 0 | Some r \<Rightarrow> price r)"

text \<open>
  The body of \<open>portfolio.forEach\<close> in \<open>updateSummary\<close>, over the three locals
  \<open>(totalInv, currentVal, hasData)\<close>. \<open>undefined > 0\<close> is false.
\<close>

fun summary_forEach :: "cache \<Rightarrow> stock list \<Rightarrow> rat \<times> rat \<times> bool \<Rightarrow> rat \<times> rat \<times> bool" where
  "summary_forEach sd [] acc = acc"
| "summary_forEach sd (s # ss) (totalInv, currentVal, hasData) =
     (case price_or_zero sd (symbol s) of
        None \<Rightarrow> summary_forEach sd ss (totalInv + qty s * cost s, currentVal, hasData)
      | Some pr \<Rightarrow>
          if 0 < pr
          then summary_forEach sd ss (totalInv + qty s * cost s, currentVal + qty s * pr, True)
          else summary_forEach sd ss (totalInv + qty s * cost s, currentVal, hasData))"

text \<open>
  What \<open>updateSummary\<close> computes. \<open>currentValueText\<close> is the content it gives to
  \<open>currentValueEl\<close>: \<open>None\<close> is the text \<open>Loading...\<close>, \<open>Some v\<close> the amount \<open>v\<close> (before
  \<open>toFixed(2)\<close>).
\<close>

record summary =
  totalInv :: rat
  currentVal :: rat
  hasData :: bool
  totalPl :: rat
  totalPlPercent :: rat
  currentValueText :: "rat option"

definition updateSummary :: "stock list \<Rightarrow> cache \<Rightarrow> summary" where
  "updateSummary pf sd =
     (case summary_forEach sd pf (0, 0, False) of
        (tInv, cVal, hData) \<Rightarrow>
          \<lparr> totalInv = tInv,
            currentVal = cVal,
            hasData = hData,
            totalPl = cVal - tInv,
            totalPlPercent = (if 0 < tInv then ((cVal - tInv) / tInv) * 100 else 0),
            currentValueText = (if hData then Some cVal else None) \<rparr>)"


section \<open>renderTable\<close>

text \<open>
  One row of the table, as \<open>renderTable\<close> writes it. A cell is \<open>None\<close> where the script
  writes its placeholder (\<open>Loading...\<close> for the price, \<open>-\<close> for the value and the
  profit) and \<open>Some v\<close> where it writes the amount \<open>v\<close> (before \<open>toFixed(2)\<close>).
\<close>

datatype pl_class = Positive | Negative | Neutral

record table_row =
  symbol_cell :: string
  qty_cell :: rat
  cost_cell :: rat
  price_cell :: "rat option"
  value_cell :: "rat option"
  pl_cell :: "rat option"
  plClass :: pl_class

text \<open>
  \<open>const data = stockData[stock.symbol] || { price: 0, change: 0 }\<close> and
  \<open>data.price\<close> are \<open>price_or_zero\<close> again.
\<close>

definition render_row :: "cache \<Rightarrow> stock \<Rightarrow> table_row" where
  "render_row sd s =
     (let currentPrice = price_or_zero sd (symbol s);
          has_price = (case currentPrice of None \<Rightarrow> False | Some p \<Rightarrow> 0 < p);
          currentValue = (case currentPrice of
                            None \<Rightarrow> 0
                          | Some p \<Rightarrow> if 0 < p then p * qty s else 0);
          totalCost = cost s * qty s;
          pl = (if has_price then currentValue - totalCost else 0)
      in \<lparr> symbol_cell = symbol s,
           qty_cell = qty s,
           cost_cell = cost s,
           price_cell = (if has_price then currentPrice else None),
           value_cell = (if 0 < currentValue then Some currentValue else None),
           pl_cell = (if has_price then Some pl else None),
           plClass = (if has_price then (if 0 \<le> pl then Positive else Negative) else Neutral) \<rparr>)"

definition renderTable :: "stock list \<Rightarrow> cache \<Rightarrow> table_row list" where
  "renderTable pf sd = map (render_row sd) pf"

section \<open>fetchStockData and fetchAllData\<close>

text \<open>
  The provider and the network are the environment: \<open>env t sy\<close> is the answer to the
  request for \<open>sy\<close> issued at time \<open>t\<close>, and the time in milliseconds until
  \<open>fetchStockData\<close> has it (both \<open>await\<close>s).
\<close>

type_synonym provider = "nat \<Rightarrow> string \<Rightarrow> provider_answer \<times> nat"

text \<open>\<open>currentPrice - previousClose\<close>: \<open>NaN\<close> when an operand is \<open>undefined\<close>.\<close>

definition js_minus :: "rat option \<Rightarrow> rat option \<Rightarrow> rat option" where
  "js_minus a b =
     (case a of None \<Rightarrow> None | Some x \<Rightarrow> (case b of None \<Rightarrow> None | Some y \<Rightarrow> Some (x - y)))"

text \<open>The object \<open>fetchStockData\<close> stores: \<open>{ price, change, history: { timestamp, close } }\<close>.\<close>

definition quote_record :: "quote_result \<Rightarrow> price_record" where
  "quote_record r =
     (let currentPrice = regularMarketPrice r;
          previousClose = chartPreviousClose r;
          chg = js_minus currentPrice previousClose
      in \<lparr> price = currentPrice, change = chg,
           history = \<lparr>timestamp = result_timestamp r, close = quote_close r\<rparr> \<rparr>)"

text \<open>
  The \<open>try\<close> block of \<open>fetchStockData\<close>: it throws (\<open>Inl\<close>) before it has stored
  anything, or stores the record under the symbol. After the store it calls
  \<open>renderTable()\<close> and \<open>updateSummary()\<close>, which change no global.
\<close>

definition fetch_try :: "provider_answer \<Rightarrow> string \<Rightarrow> app \<Rightarrow> js_error + app" where
  "fetch_try ans sy st =
     (case ans of
        Throws err \<Rightarrow> Inl err
      | Quote r \<Rightarrow> Inr (st\<lparr>stockData := (stockData st)(sy \<mapsto> quote_record r)\<rparr>))"

text \<open>
  How a call of an \<open>async\<close> function ends for the caller that awaits it: its promise is
  fulfilled, or it is rejected with the error the body threw.
\<close>

datatype completion = Resolved | Raised js_error

text \<open>
  \<open>fetchStockData\<close>: the \<open>catch\<close> block reports the error with \<open>console.error\<close> and
  the function ends normally.
\<close>

definition fetchStockData :: "provider \<Rightarrow> string \<Rightarrow> app \<Rightarrow> app \<times> completion" where
  "fetchStockData env sy st =
     (case env (now st) sy of
        (ans, latency) \<Rightarrow>
          (let rq = \<lparr>req_symbol = sy, issued = now st, settled = now st + latency, answer = ans\<rparr>
           in case fetch_try ans sy st of
                Inl err \<Rightarrow>
                  (st\<lparr>console := console st @ [sy], now := now st + latency,
                      requests := requests st @ [rq]\<rparr>, Resolved)
              | Inr st' \<Rightarrow>
                  (st'\<lparr>now := now st + latency, requests := requests st @ [rq]\<rparr>, Resolved)))"

text \<open>
  The loop of \<open>fetchAllData\<close>. \<open>await fetchStockData(stock.symbol)\<close> goes on when the
  call has ended, and would rethrow if it had been rejected; then
  \<open>await new Promise(r => setTimeout(r, 500))\<close> goes on when the timer has fired, 500
  milliseconds later or more: \<open>lag t\<close> is how late the timer set at time \<open>t\<close> fires.
\<close>

fun fetchAllData_loop :: "provider \<Rightarrow> (nat \<Rightarrow> nat) \<Rightarrow> stock list \<Rightarrow> app \<Rightarrow> app \<times> completion" where
  "fetchAllData_loop env lag [] st = (st, Resolved)"
| "fetchAllData_loop env lag (s # ss) st =
     (case fetchStockData env (symbol s) st of
        (st', Raised err) \<Rightarrow> (st', Raised err)
      | (st', Resolved) \<Rightarrow>
          fetchAllData_loop env lag ss (st'\<lparr>now := now st' + 500 + lag (now st')\<rparr>))"

definition fetchAllData :: "provider \<Rightarrow> (nat \<Rightarrow> nat) \<Rightarrow> app \<Rightarrow> app \<times> completion" where
  "fetchAllData env lag st = fetchAllData_loop env lag (portfolio st) st"

section \<open>Import and export\<close>

text \<open>
  The two listeners work on JSON: \<open>JSON.stringify(portfolio, null, 2)\<close> writes the file
  and \<open>JSON.parse\<close> reads it. The text of the file is not modelled: a file is the
  value \<open>JSON.parse\<close> makes of it (\<open>Inr v\<close>), or the \<open>SyntaxError\<close> it throws (\<open>Inl\<close>), and
  \<open>JSON.parse\<close> of what \<open>JSON.stringify\<close> wrote is taken to be the value that was written.
  \<open>Obj kvs\<close> lists the properties of an object, each name once.

  A value in a condition: \<open>undefined\<close>, \<open>null\<close>, \<open>false\<close>, \<open>0\<close> and the empty string
  are false, everything else is true.
\<close>

definition truthy :: "jsval \<Rightarrow> bool" where
  "truthy v =
     (case v of
        Undefined \<Rightarrow> False
      | Null \<Rightarrow> False
      | Bool b \<Rightarrow> b
      | Num n \<Rightarrow> n \<noteq> 0
      | Str s \<Rightarrow> s \<noteq> []
      | Arr xs \<Rightarrow> True
      | Obj kvs \<Rightarrow> True)"

text \<open>
  \<open>item.symbol\<close>, \<open>item.qty\<close>, \<open>item.cost\<close>: reading a property of \<open>undefined\<close> or
  \<open>null\<close> throws a \<open>TypeError\<close>; an object gives the property it has, or \<open>undefined\<close>;
  a number, a string, a boolean and an array have none of these three properties.
\<close>

definition get_field :: "string \<Rightarrow> jsval \<Rightarrow> js_error + jsval" where
  "get_field k v =
     (case v of
        Undefined \<Rightarrow> Inl TypeError
      | Null \<Rightarrow> Inl TypeError
      | Obj kvs \<Rightarrow> Inr (case map_of kvs k of None \<Rightarrow> Undefined | Some x \<Rightarrow> x)
      | _ \<Rightarrow> Inr Undefined)"

text \<open>\<open>item.symbol && item.qty && item.cost\<close>, as the condition \<open>every\<close> tests.\<close>

definition item_ok :: "jsval \<Rightarrow> js_error + bool" where
  "item_ok item =
     (case get_field ''symbol'' item of
        Inl err \<Rightarrow> Inl err
      | Inr s \<Rightarrow>
          if \<not> truthy s then Inr False
          else (case get_field ''qty'' item of
                  Inl err \<Rightarrow> Inl err
                | Inr q \<Rightarrow>
                    if \<not> truthy q then Inr False
                    else (case get_field ''cost'' item of
                            Inl err \<Rightarrow> Inl err
                          | Inr c \<Rightarrow> Inr (truthy c))))"

text \<open>
  \<open>importedData.every(...)\<close>: in order, false at the first item that fails, and the
  error of the first item on which the callback throws.
\<close>

fun every_ok :: "jsval list \<Rightarrow> js_error + bool" where
  "every_ok [] = Inr True"
| "every_ok (item # items) =
     (case item_ok item of
        Inl err \<Rightarrow> Inl err
      | Inr False \<Rightarrow> Inr False
      | Inr True \<Rightarrow> every_ok items)"

text \<open>
  After an import the entries of \<open>portfolio\<close> are the values of the file, and
  \<open>renderTable\<close> calls \<open>stock.cost.toFixed(2)\<close> on each: a \<open>TypeError\<close> when the cost of
  an entry is not a number.
\<close>

definition cost_is_number :: "jsval \<Rightarrow> bool" where
  "cost_is_number item = (case get_field ''cost'' item of Inr (Num c) \<Rightarrow> True | _ \<Rightarrow> False)"

definition renderTable_raw :: "jsval list \<Rightarrow> js_error option" where
  "renderTable_raw items = (if list_all cost_is_number items then None else Some TypeError)"

text \<open>
  What the import listener reads and writes: \<open>portfolio\<close> as an array of JSON values
  (\<open>items\<close>), the item of \<open>localStorage\<close> (\<open>stored\<close>), the messages shown with \<open>alert\<close>,
  and how many times \<open>fetchAllData()\<close> was started (\<open>batches\<close>).
\<close>

record page =
  items :: "jsval list"
  stored :: "jsval list option"
  alerts :: "string list"
  batches :: nat

definition alert :: "string \<Rightarrow> page \<Rightarrow> page" where
  "alert msg pg = pg\<lparr>alerts := alerts pg @ [msg]\<rparr>"

text \<open>
  \<open>reader.onload\<close>. \<open>parsed\<close> is what \<open>JSON.parse(event.target.result)\<close> does,
  \<open>confirmed\<close> the answer to \<open>confirm(...)\<close>. The whole body is one \<open>try\<close> block whose
  \<open>catch\<close> shows \<open>Error parsing JSON file.\<close>: for a \<open>SyntaxError\<close> of \<open>JSON.parse\<close>, for an
  error thrown inside \<open>every\<close>, and for an error of \<open>renderTable()\<close>, which is called
  when \<open>portfolio\<close> has been replaced and saved.
\<close>

definition reader_onload :: "js_error + jsval \<Rightarrow> bool \<Rightarrow> page \<Rightarrow> page" where
  "reader_onload parsed confirmed pg =
     (case parsed of
        Inl err \<Rightarrow> alert ''Error parsing JSON file.'' pg
      | Inr importedData \<Rightarrow>
          (case importedData of
             Arr xs \<Rightarrow>
               (case every_ok xs of
                  Inl err \<Rightarrow> alert ''Error parsing JSON file.'' pg
                | Inr True \<Rightarrow>
                    if confirmed
                    then (let pg' = pg\<lparr>items := xs, stored := Some xs\<rparr>
                          in case renderTable_raw xs of
                               Some err \<Rightarrow> alert ''Error parsing JSON file.'' pg'
                             | None \<Rightarrow>
                                 alert ''Portfolio restored successfully!''
                                   (pg'\<lparr>batches := Suc (batches pg')\<rparr>))
                    else pg
                | Inr False \<Rightarrow> alert ''Invalid file format: Missing required fields.'' pg)
           | _ \<Rightarrow> alert ''Invalid file format: Not a list of stocks.'' pg))"

text \<open>The \<open>change\<close> listener: nothing happens when no file was chosen.\<close>

definition importInput_change :: "(js_error + jsval) option \<Rightarrow> bool \<Rightarrow> page \<Rightarrow> page" where
  "importInput_change file confirmed pg =
     (case file of None \<Rightarrow> pg | Some parsed \<Rightarrow> reader_onload parsed confirmed pg)"

text \<open>
  An entry of \<open>portfolio\<close> as JSON, \<open>{ symbol, qty, cost }\<close>, and back.
\<close>

definition stock_obj :: "stock \<Rightarrow> jsval" where
  "stock_obj s = Obj [(''symbol'', Str (symbol s)), (''qty'', Num (qty s)), (''cost'', Num (cost s))]"

definition stock_of :: "jsval \<Rightarrow> stock option" where
  "stock_of v =
     (case v of
        Obj kvs \<Rightarrow>
          (case (map_of kvs ''symbol'', map_of kvs ''qty'', map_of kvs ''cost'') of
             (Some (Str s), Some (Num q), Some (Num c)) \<Rightarrow> Some \<lparr>symbol = s, qty = q, cost = c\<rparr>
           | _ \<Rightarrow> None)
      | _ \<Rightarrow> None)"

text \<open>
  The \<open>click\<close> listener of the export button: the message for an empty portfolio
  (\<open>Inl\<close>), else the value written to the file.
\<close>

definition exportBtn_click :: "stock list \<Rightarrow> string + jsval" where
  "exportBtn_click pf =
     (if length pf = 0 then Inl ''No data to export!'' else Inr (Arr (map stock_obj pf)))"

section \<open>The notions of the specification\<close>

text \<open>
  The words of the specification: a position has a usable price when the cache holds,
  for its symbol, a price strictly greater than 0.
\<close>

definition usable_price :: "cache \<Rightarrow> string \<Rightarrow> rat option" where
  "usable_price sd sy =
     (case sd sy of
        None \<Rightarrow> None
      | Some r \<Rightarrow> (case price r of None \<Rightarrow> None | Some p \<Rightarrow> if 0 < p then Some p else None))"

definition invested :: "stock \<Rightarrow> rat" where
  "invested s = qty s * cost s"

definition valued :: "cache \<Rightarrow> stock \<Rightarrow> rat" where
  "valued sd s = (case usable_price sd (symbol s) of None \<Rightarrow> 0 | Some p \<Rightarrow> qty s * p)"

definition priced :: "cache \<Rightarrow> stock \<Rightarrow> bool" where
  "priced sd s = (usable_price sd (symbol s) \<noteq> None)"

text \<open>
  A merge is valid when its quantity is above 0 and its cost is not below 0; the total
  quantity and the total cost basis of a sequence of merges, in exact arithmetic.
\<close>

definition total_qty :: "(rat \<times> rat) list \<Rightarrow> rat" where
  "total_qty ms = sum_list (map fst ms)"

definition total_basis :: "(rat \<times> rat) list \<Rightarrow> rat" where
  "total_basis ms = sum_list (map (\<lambda>(q, c). q * c) ms)"

definition valid_merge :: "rat \<times> rat \<Rightarrow> bool" where
  "valid_merge m = (0 < fst m \<and> 0 \<le> snd m)"

text \<open>The array through a sequence of \<open>addStock\<close> calls (what \<open>addStock_all\<close> does to \<open>portfolio\<close>).\<close>

fun addStock_seq :: "string \<Rightarrow> (rat \<times> rat) list \<Rightarrow> stock list \<Rightarrow> stock list option" where
  "addStock_seq sy [] pf = Some pf"
| "addStock_seq sy ((q, c) # ms) pf =
     (case addStock_portfolio sy q c pf of None \<Rightarrow> None | Some pf' \<Rightarrow> addStock_seq sy ms pf')"

text \<open>The position of the symbol, when the array has one, has a quantity above 0.\<close>

definition position_positive :: "string \<Rightarrow> stock list \<Rightarrow> bool" where
  "position_positive sy pf = (case find_stock sy pf of None \<Rightarrow> True | Some e \<Rightarrow> 0 < qty e)"

text \<open>
  A rational is a double when rounding leaves it as it is. A merge of \<open>(q, c)\<close> into
  \<open>(q0, c0)\<close> is exact when none of its five operations rounds: the exact result of each
  is a double. A sequence of merges is exact from \<open>(q0, c0)\<close> when each merge is, from
  the exact quantity and cost the merges before it give; a run of \<open>addStock\<close> calls is
  exact when its merges into the existing position are (the first call of a run for a
  new symbol computes nothing).
\<close>

definition is_double :: "rat \<Rightarrow> bool" where
  "is_double x = (round64 x = Some x)"

definition exact_merge :: "rat \<Rightarrow> rat \<Rightarrow> rat \<Rightarrow> rat \<Rightarrow> bool" where
  "exact_merge q0 c0 q c =
     (is_double (q0 * c0) \<and> is_double (q * c) \<and> is_double (q0 * c0 + q * c)
      \<and> is_double (q0 + q) \<and> q0 + q \<noteq> 0
      \<and> is_double ((q0 * c0 + q * c) / (q0 + q)))"

fun exact_from :: "rat \<Rightarrow> rat \<Rightarrow> (rat \<times> rat) list \<Rightarrow> bool" where
  "exact_from q0 c0 [] = True"
| "exact_from q0 c0 ((q, c) # ms) =
     (exact_merge q0 c0 q c \<and> exact_from (q0 + q) ((q0 * c0 + q * c) / (q0 + q)) ms)"

definition exact_run :: "string \<Rightarrow> (rat \<times> rat) list \<Rightarrow> stock list \<Rightarrow> bool" where
  "exact_run sy ms pf =
     (case find_stock sy pf of
        Some e \<Rightarrow> exact_from (qty e) (cost e) ms
      | None \<Rightarrow> (case ms of [] \<Rightarrow> True | (q, c) # rest \<Rightarrow> exact_from q c rest))"

text \<open>
  The requests of one run of \<open>fetchAllData\<close>: what the run added to \<open>requests\<close>.
\<close>

definition batch_log :: "app \<Rightarrow> app \<Rightarrow> request list" where
  "batch_log st st' = drop (length (requests st)) (requests st')"

text \<open>
  The last answer with a quote that a list of requests has for a symbol, if it has one.
\<close>

fun last_quote :: "string \<Rightarrow> request list \<Rightarrow> quote_result option" where
  "last_quote sy [] = None"
| "last_quote sy (rq # rqs) =
     (case last_quote sy rqs of
        Some r \<Rightarrow> Some r
      | None \<Rightarrow>
          (case answer rq of
             Throws err \<Rightarrow> None
           | Quote r \<Rightarrow> if req_symbol rq = sy then Some r else None))"

text \<open>
  Requests one after the other, from time \<open>t\<close> on: each is issued when the one before
  has ended and \<open>delay\<close> milliseconds more have passed.
\<close>

fun spaced :: "nat \<Rightarrow> nat \<Rightarrow> request list \<Rightarrow> bool" where
  "spaced delay t [] = True"
| "spaced delay t (rq # rqs) =
     (t \<le> issued rq \<and> issued rq \<le> settled rq \<and> spaced delay (settled rq + delay) rqs)"

text \<open>
  A valid position has a symbol that is not empty, a quantity above 0 and a cost that
  is not below 0. It is restorable when its cost is above 0 as well.
\<close>

definition valid_position :: "stock \<Rightarrow> bool" where
  "valid_position s = (symbol s \<noteq> [] \<and> 0 < qty s \<and> 0 \<le> cost s)"

definition restorable :: "stock \<Rightarrow> bool" where
  "restorable s = (valid_position s \<and> 0 < cost s)"

text \<open>
  A logged request carries the answer the environment gave to it, and ended when that
  answer had arrived.
\<close>

definition answered :: "provider \<Rightarrow> request \<Rightarrow> bool" where
  "answered env rq = (env (issued rq) (req_symbol rq) = (answer rq, settled rq - issued rq))"

section \<open>Example inputs\<close>

text \<open>
  A provider that fails for the symbol \<open>B\<close> and answers every other symbol with the
  same quote (price 180, previous close 175), and a portfolio of three symbols.
\<close>

definition quote0 :: quote_result where
  "quote0 = \<lparr> regularMarketPrice = Some 180, chartPreviousClose = Some 175,
               result_timestamp = Arr [Num 1700000000], quote_close = Arr [Num 180] \<rparr>"

definition env0 :: provider where
  "env0 t sy = (if sy = ''B'' then (Throws FetchFailed, 40) else (Quote quote0, 30))"

definition app3 :: app where
  "app3 = app0\<lparr>portfolio := [\<lparr>symbol = ''A'', qty = 1, cost = 1\<rparr>,
             \<lparr>symbol = ''B'', qty = 1, cost = 1\<rparr>, \<lparr>symbol = ''C'', qty = 1, cost = 1\<rparr>]\<rparr>"

text \<open>
  A provider whose answers have the shape the script reads, but no prices in \<open>meta\<close>;
  and a state whose portfolio is the symbol \<open>A\<close>, with the price 180 in \<open>stockData\<close>.
\<close>

definition quote_no_price :: quote_result where
  "quote_no_price = \<lparr> regularMarketPrice = None, chartPreviousClose = None,
                      result_timestamp = Arr [Num 1700086400], quote_close = Arr [Num 181] \<rparr>"

definition env1 :: provider where
  "env1 t sy = (Quote quote_no_price, 30)"

definition app1 :: app where
  "app1 = app0\<lparr> portfolio := [\<lparr>symbol = ''A'', qty = 1, cost = 1\<rparr>],
               stockData := (\<lambda>_. None)(''A'' \<mapsto>
                 \<lparr> price = Some 180, change = Some 5,
                   history = \<lparr>timestamp = Arr [Num 1700000000], close = Arr [Num 180]\<rparr> \<rparr>) \<rparr>"

text \<open>The page before anything was imported.\<close>

definition page0 :: page where
  "page0 = \<lparr> items = [], stored = None, alerts = [], batches = 0 \<rparr>"

section \<open>Properties of updateSummary\<close>

lemma summary_forEach_acc:
  "summary_forEach sd pf (a, b, h) =
     (a + sum_list (map invested pf), b + sum_list (map (valued sd) pf),
      h \<or> list_ex (priced sd) pf)"
proof (induction pf arbitrary: a b h)
  case Nil
  show ?case by simp
next
  case (Cons s ss)
  show ?case
  proof (cases "sd (symbol s)")
    case None
    then show ?thesis
      using Cons.IH
      by (simp add: price_or_zero_def usable_price_def invested_def valued_def priced_def)
  next
    case (Some r)
    then show ?thesis
      using Cons.IH
      by (cases "price r")
        (simp_all add: price_or_zero_def usable_price_def invested_def valued_def priced_def)
  qed
qed

text \<open>
  Claim C2. For every portfolio and cache, \<open>updateSummary\<close> adds \<open>qty * cost\<close> of every
  position to the invested total; a position adds \<open>qty * price\<close> to the current value,
  and sets \<open>hasData\<close>, exactly when the cache holds a price above 0 for its symbol;
  the profit is the current value minus the invested total, and the percentage is
  \<open>totalPl / totalInv * 100\<close> when the invested total is above 0, else 0.
\<close>

theorem updateSummary_totals:
  "totalInv (updateSummary pf sd) = sum_list (map invested pf)
   \<and> currentVal (updateSummary pf sd) = sum_list (map (valued sd) pf)
   \<and> hasData (updateSummary pf sd) = list_ex (priced sd) pf
   \<and> totalPl (updateSummary pf sd)
       = currentVal (updateSummary pf sd) - totalInv (updateSummary pf sd)
   \<and> totalPlPercent (updateSummary pf sd)
       = (if 0 < totalInv (updateSummary pf sd)
          then totalPl (updateSummary pf sd) / totalInv (updateSummary pf sd) * 100
          else 0)"
proof -
  have loop: "summary_forEach sd pf (0, 0, False) =
      (sum_list (map invested pf), sum_list (map (valued sd) pf), list_ex (priced sd) pf)"
    using summary_forEach_acc [of sd pf 0 0 False] by simp
  have "totalInv (updateSummary pf sd) = sum_list (map invested pf)"
    and "currentVal (updateSummary pf sd) = sum_list (map (valued sd) pf)"
    and "hasData (updateSummary pf sd) = list_ex (priced sd) pf"
    and "totalPl (updateSummary pf sd)
       = sum_list (map (valued sd) pf) - sum_list (map invested pf)"
    and "totalPlPercent (updateSummary pf sd)
       = (if 0 < sum_list (map invested pf)
          then (sum_list (map (valued sd) pf) - sum_list (map invested pf))
               / sum_list (map invested pf) * 100
          else 0)"
    by (simp_all add: updateSummary_def loop)
  then show ?thesis by simp
qed

theorem updateSummary_totals_witness:
  "updateSummary [\<lparr>symbol = ''AAPL'', qty = 10, cost = 150\<rparr>]
     ((\<lambda>_. None)(''AAPL'' := Some \<lparr>price = Some 180, change = Some 5,
        history = \<lparr>timestamp = Undefined, close = Undefined\<rparr>\<rparr>))
   = \<lparr> totalInv = 1500, currentVal = 1800, hasData = True, totalPl = 300,
       totalPlPercent = 20, currentValueText = Some 1800 \<rparr>"
proof -
  let ?pf = "[\<lparr>symbol = ''AAPL'', qty = 10, cost = 150\<rparr>]"
  let ?sd = "(\<lambda>_. None)(''AAPL'' := Some \<lparr>price = Some 180, change = Some 5,
        history = \<lparr>timestamp = Undefined, close = Undefined\<rparr>\<rparr>)"
  have t: "totalInv (updateSummary ?pf ?sd) = 1500"
    and c: "currentVal (updateSummary ?pf ?sd) = 1800"
    and h: "hasData (updateSummary ?pf ?sd)"
    and p: "totalPl (updateSummary ?pf ?sd) = 300"
    and q: "totalPlPercent (updateSummary ?pf ?sd) = 20"
    using updateSummary_totals [of ?pf ?sd]
    by (simp_all add: invested_def valued_def priced_def usable_price_def)
  have x: "currentValueText (updateSummary ?pf ?sd) = Some 1800"
    by (simp add: updateSummary_def price_or_zero_def)
  show ?thesis
    using t c h p q x by (cases "updateSummary ?pf ?sd") simp
qed

section \<open>Properties of the arithmetic of doubles\<close>

text \<open>
  \<open>ilog2\<close> is the exponent of its argument, so \<open>round64\<close> rounds at the right place:
  the result is the multiple of \<open>2 ^ e\<close> nearest to \<open>x\<close>, for the \<open>e\<close> with
  \<open>2 ^ (e + 52) \<le> x < 2 ^ (e + 53)\<close>. Every integer below \<open>2 ^ 53\<close> is a double.
\<close>

lemma pow2_pos: "0 < pow2 e"
  by (simp add: pow2_def)

lemma pow2_add: "pow2 (a + b) = pow2 a * pow2 b"
  by (simp add: pow2_def power_int_add)

lemma pow2_diff: "pow2 (a - b) = pow2 a / pow2 b"
  by (simp add: pow2_def power_int_diff)

lemma pow2_less: "a < b \<Longrightarrow> pow2 a < pow2 b"
  by (simp add: pow2_def power_int_strict_increasing)

lemma pow2_nat: "0 \<le> e \<Longrightarrow> pow2 e = 2 ^ nat e"
  by (simp add: pow2_def power_int_def)

lemma bitlen_pow2_bounds:
  assumes "0 < p"
  shows "pow2 (bitlen p - 1) \<le> of_int p" and "of_int p < pow2 (bitlen p)"
proof -
  have b: "2 ^ nat (bitlen p - 1) \<le> p" "p < 2 ^ nat (bitlen p)"
    using bitlen_bounds [OF assms] by simp_all
  have "1 \<le> bitlen p" using assms by (simp add: bitlen_alt_def)
  then have n: "0 \<le> bitlen p - 1" "0 \<le> bitlen p" by simp_all
  have "(of_int (2 ^ nat (bitlen p - 1)) :: rat) \<le> of_int p"
    using b(1) by (simp only: of_int_le_iff)
  then show "pow2 (bitlen p - 1) \<le> of_int p"
    using n(1) by (simp add: pow2_nat)
  have "(of_int p :: rat) < of_int (2 ^ nat (bitlen p))"
    using b(2) by (simp only: of_int_less_iff)
  then show "of_int p < pow2 (bitlen p)"
    using n(2) by (simp add: pow2_nat)
qed

lemma ilog2_bounds:
  assumes "0 < x"
  shows "pow2 (ilog2 x) \<le> x \<and> x < pow2 (ilog2 x + 1)"
proof -
  obtain p q where pq: "quotient_of x = (p, q)" by (cases "quotient_of x")
  have q: "0 < q" using pq by (rule quotient_of_denom_pos)
  have x: "x = of_int p / of_int q" using pq by (rule quotient_of_div)
  have p: "0 < p" using assms q x by (simp add: zero_less_divide_iff)
  let ?d = "bitlen p - bitlen q"
  have pb: "pow2 (bitlen p - 1) \<le> of_int p" "of_int p < pow2 (bitlen p)"
    using p by (rule bitlen_pow2_bounds)+
  have qb: "pow2 (bitlen q - 1) \<le> of_int q" "of_int q < pow2 (bitlen q)"
    using q by (rule bitlen_pow2_bounds)+
  have qpos: "(0::rat) < of_int q" using q by simp
  have up: "x < pow2 (?d + 1)"
  proof -
    have "x < pow2 (bitlen p) / of_int q"
      using pb(2) qpos by (simp add: x divide_strict_right_mono)
    also have "\<dots> \<le> pow2 (bitlen p) / pow2 (bitlen q - 1)"
      using qb(1) pow2_pos [of "bitlen q - 1"] pow2_pos [of "bitlen p"]
      by (simp add: frac_le)
    also have "\<dots> = pow2 (?d + 1)"
      by (simp add: pow2_diff [symmetric] algebra_simps)
    finally show ?thesis .
  qed
  have lo: "pow2 (?d - 1) < x"
  proof -
    have "pow2 (?d - 1) = pow2 (bitlen p - 1) / pow2 (bitlen q)"
      by (simp add: pow2_diff [symmetric] algebra_simps)
    also have "\<dots> < pow2 (bitlen p - 1) / of_int q"
      using qb(2) qpos pow2_pos [of "bitlen p - 1"]
      by (simp add: frac_less2)
    also have "\<dots> \<le> x"
      using pb(1) qpos by (simp add: x divide_right_mono)
    finally show ?thesis .
  qed
  show ?thesis
  proof (cases "pow2 ?d \<le> x")
    case True
    then have "ilog2 x = ?d" by (simp add: ilog2_def pq Let_def)
    then show ?thesis using True up by simp
  next
    case False
    then have "ilog2 x = ?d - 1" by (simp add: ilog2_def pq Let_def)
    then show ?thesis using False lo by simp
  qed
qed

lemma ilog2_unique:
  assumes "0 < x" and "pow2 d \<le> x" and "x < pow2 (d + 1)"
  shows "ilog2 x = d"
proof -
  have b: "pow2 (ilog2 x) \<le> x" "x < pow2 (ilog2 x + 1)"
    using ilog2_bounds [OF assms(1)] by simp_all
  have "\<not> ilog2 x < d"
  proof
    assume "ilog2 x < d"
    then have "ilog2 x + 1 \<le> d" by simp
    then have "pow2 (ilog2 x + 1) \<le> pow2 d"
      using pow2_less [of "ilog2 x + 1" d] by (cases "ilog2 x + 1 = d") auto
    then show False using b(2) assms(2) by simp
  qed
  moreover have "\<not> d < ilog2 x"
  proof
    assume "d < ilog2 x"
    then have "d + 1 \<le> ilog2 x" by simp
    then have "pow2 (d + 1) \<le> pow2 (ilog2 x)"
      using pow2_less [of "d + 1" "ilog2 x"] by (cases "d + 1 = ilog2 x") auto
    then show False using b(1) assms(3) by simp
  qed
  ultimately show ?thesis by simp
qed

lemma round64_at:
  assumes "0 < x" and "pow2 (e + 52) \<le> x" and "x < pow2 (e + 53)"
    and "- 1074 \<le> e" and "e < 971"
  shows "round64 x = Some (of_int (round_even (x / pow2 e)) * pow2 e)"
proof -
  have "x < pow2 ((e + 52) + 1)" using assms(3) by (simp add: add.commute add.left_commute)
  with assms(1,2) have "ilog2 x = e + 52" by (rule ilog2_unique)
  then have "max (ilog2 \<bar>x\<bar> - 52) (- 1074) = e"
    using assms(1,4) by simp
  then show ?thesis
    using assms(1,5) by (simp add: round64_def Let_def)
qed

lemma round_even_of_int: "round_even (of_int k) = k"
  by (simp add: round_even_def)


lemma pow2_le_D: "pow2 a < pow2 b \<Longrightarrow> a < b"
proof (rule ccontr)
  assume l: "pow2 a < pow2 b" and n: "\<not> a < b"
  then have "b = a \<or> b < a" by auto
  then show False
  proof
    assume "b = a" then show False using l by simp
  next
    assume "b < a" then have "pow2 b < pow2 a" by (rule pow2_less)
    then show False using l by simp
  qed
qed

lemma pow2_neg: "pow2 (- e) = 1 / pow2 e"
  by (simp add: pow2_def power_int_minus_divide)

lemma round64_int:
  assumes "0 < n" and "n < 2 ^ 53"
  shows "round64 (of_int n) = Some (of_int n)"
proof -
  let ?x = "of_int n :: rat"
  let ?d = "ilog2 ?x"
  have x: "0 < ?x" using assms(1) by simp
  have b: "pow2 ?d \<le> ?x" "?x < pow2 (?d + 1)"
    using ilog2_bounds [OF x] by simp_all
  have "(1::rat) \<le> ?x" using assms(1) by simp
  then have "pow2 0 \<le> ?x" by (simp add: pow2_def)
  then have "pow2 0 < pow2 (?d + 1)" using b(2) by simp
  then have "0 < ?d + 1" by (rule pow2_le_D)
  then have d0: "0 \<le> ?d" by simp
  have "of_int n < (of_int (2 ^ 53) :: rat)" using assms(2) by (simp only: of_int_less_iff)
  then have "?x < pow2 53" by (simp add: pow2_def)
  then have "pow2 ?d < pow2 53" using b(1) by simp
  then have "?d < 53" by (rule pow2_le_D)
  then have d52: "?d \<le> 52" by simp
  let ?e = "?d - 52"
  have e1: "pow2 (?e + 52) \<le> ?x" using b(1) by simp
  have "?e + 53 = ?d + 1" by simp
  then have e2: "?x < pow2 (?e + 53)" using b(2) by (simp only:)
  have e3: "- 1074 \<le> ?e" "?e < 971" using d0 d52 by simp_all
  have r: "round64 ?x = Some (of_int (round_even (?x / pow2 ?e)) * pow2 ?e)"
    using x e1 e2 e3 by (rule round64_at)
  have k: "pow2 (- ?e) = of_int (2 ^ nat (- ?e))"
    using d52 by (simp add: pow2_nat)
  have "pow2 (- ?e) * pow2 ?e = pow2 (- ?e + ?e)"
    by (rule pow2_add [symmetric])
  then have inv: "pow2 (- ?e) * pow2 ?e = 1"
    by (simp add: pow2_def)
  have "?x * pow2 (- ?e) = ?x * (1 / pow2 ?e)"
    by (simp only: pow2_neg)
  also have "\<dots> = ?x / pow2 ?e"
    by simp
  finally have "?x / pow2 ?e = ?x * pow2 (- ?e)"
    by (rule sym)
  also have "\<dots> = of_int (n * 2 ^ nat (- ?e))"
    by (simp only: k of_int_mult)
  finally have "?x / pow2 ?e = of_int (n * 2 ^ nat (- ?e))" .
  then have "round_even (?x / pow2 ?e) = n * 2 ^ nat (- ?e)"
    by (simp only: round_even_of_int)
  then have "of_int (round_even (?x / pow2 ?e)) * pow2 ?e
      = of_int (n * 2 ^ nat (- ?e)) * pow2 ?e"
    by (simp only:)
  also have "\<dots> = ?x * pow2 (- ?e) * pow2 ?e"
    by (simp only: k of_int_mult)
  also have "\<dots> = ?x * (pow2 (- ?e) * pow2 ?e)"
    by (simp only: mult.assoc)
  also have "\<dots> = ?x"
    using inv by simp
  finally show ?thesis using r by simp
qed

lemma round_even_quotient:
  assumes "0 < b" and "2 * (a mod b) \<noteq> b"
  shows "round_even (of_int a / of_int b) = (if 2 * (a mod b) < b then a div b else a div b + 1)"
proof -
  have f: "\<lfloor>(of_int a :: rat) / of_int b\<rfloor> = a div b"
    by (simp add: floor_divide_of_int_eq)
  have bpos: "(0::rat) < of_int b" using assms(1) by simp
  have "a = a div b * b + a mod b" by simp
  then have "(of_int a :: rat) = of_int (a div b) * of_int b + of_int (a mod b)"
    by (metis of_int_add of_int_mult)
  then have "(of_int a :: rat) / of_int b
      = (of_int (a div b) * of_int b + of_int (a mod b)) / of_int b"
    by (simp only:)
  also have "\<dots> = of_int (a div b) + of_int (a mod b) / of_int b"
    using bpos by (simp add: add_divide_distrib)
  finally have "(of_int a :: rat) / of_int b = of_int (a div b) + of_int (a mod b) / of_int b" .
  then have r: "(of_int a :: rat) / of_int b - of_int (a div b) = of_int (a mod b) / of_int b"
    by simp
  have lt: "(of_int (a mod b) / of_int b < (1 / 2 :: rat)) = (2 * (a mod b) < b)"
  proof -
    have "(of_int (a mod b) / of_int b < (1 / 2 :: rat)) = ((of_int (2 * (a mod b)) :: rat) < of_int b)"
      using bpos by (simp add: field_simps)
    then show ?thesis by (simp only: of_int_less_iff)
  qed
  have gt: "((1 / 2 :: rat) < of_int (a mod b) / of_int b) = (b < 2 * (a mod b))"
  proof -
    have "((1 / 2 :: rat) < of_int (a mod b) / of_int b) = ((of_int b :: rat) < of_int (2 * (a mod b)))"
      using bpos by (simp add: field_simps)
    then show ?thesis by (simp only: of_int_less_iff)
  qed
  show ?thesis
    unfolding round_even_def Let_def f r lt gt
    using assms(2) by auto
qed


section \<open>Properties of addStock\<close>

lemma find_replace_first:
  "P y \<Longrightarrow> find P xs = Some e \<Longrightarrow> find P (replace_first P y xs) = Some y"
  by (induction xs) (auto split: if_splits)

lemma replace_first_twice:
  "P y \<Longrightarrow> replace_first P z (replace_first P y xs) = replace_first P z xs"
  by (induction xs) auto

lemma replace_first_same:
  "find P xs = Some e \<Longrightarrow> replace_first P e xs = xs"
  by (induction xs) (auto split: if_splits)

lemma find_symbol: "find_stock sy pf = Some e \<Longrightarrow> symbol e = sy"
  unfolding find_stock_def by (induction pf) (auto split: if_splits)

lemma merged_rounded:
  assumes "round64 (q0 * c0) = Some a" and "round64 (q * c) = Some b"
    and "round64 (a + b) = Some t" and "round64 (q0 + q) = Some tq" and "tq \<noteq> 0"
    and "round64 (t / tq) = Some nc"
  shows "merged q0 c0 q c = Some (tq, nc)"
  using assms by (simp add: merged_def fmul_def fadd_def fdiv_def)

lemma merged_exact:
  assumes "exact_merge q0 c0 q c"
  shows "merged q0 c0 q c = Some (q0 + q, (q0 * c0 + q * c) / (q0 + q))"
proof -
  have "round64 (q0 * c0) = Some (q0 * c0)" "round64 (q * c) = Some (q * c)"
    "round64 (q0 * c0 + q * c) = Some (q0 * c0 + q * c)" "round64 (q0 + q) = Some (q0 + q)"
    "q0 + q \<noteq> 0" "round64 ((q0 * c0 + q * c) / (q0 + q)) = Some ((q0 * c0 + q * c) / (q0 + q))"
    using assms by (simp_all add: exact_merge_def is_double_def)
  then show ?thesis by (rule merged_rounded)
qed

lemma addStock_portfolio_existing:
  assumes "find_stock sy pf = Some e" and "merged (qty e) (cost e) q c = Some (tq, nc)"
  shows "addStock_portfolio sy q c pf =
     Some (replace_first (\<lambda>s. symbol s = sy) \<lparr>symbol = sy, qty = tq, cost = nc\<rparr> pf)"
proof -
  have "symbol e = sy" using assms(1) by (rule find_symbol)
  then have "e\<lparr>cost := nc, qty := tq\<rparr> = \<lparr>symbol = sy, qty = tq, cost = nc\<rparr>"
    by (cases e) simp
  then show ?thesis
    using assms by (simp add: addStock_portfolio_def)
qed

lemma addStock_seq_existing:
  assumes "find_stock sy pf = Some e" and "qty e \<noteq> 0" and "exact_from (qty e) (cost e) ms"
  shows "addStock_seq sy ms pf =
     Some (replace_first (\<lambda>s. symbol s = sy)
        \<lparr>symbol = sy, qty = qty e + total_qty ms,
          cost = (qty e * cost e + total_basis ms) / (qty e + total_qty ms)\<rparr> pf)"
  using assms
proof (induction ms arbitrary: pf e)
  case Nil
  have "symbol e = sy" using Nil(1) by (rule find_symbol)
  then have "\<lparr>symbol = sy, qty = qty e, cost = qty e * cost e / qty e\<rparr> = e"
    using Nil(2) by (cases e) simp
  then show ?case
    using Nil by (simp add: total_qty_def total_basis_def replace_first_same find_stock_def)
next
  case (Cons m ms)
  obtain q c where m: "m = (q, c)" by (cases m)
  let ?P = "\<lambda>s. symbol s = sy"
  let ?e' = "\<lparr>symbol = sy, qty = qty e + q, cost = (qty e * cost e + q * c) / (qty e + q)\<rparr>"
  have ex: "exact_merge (qty e) (cost e) q c"
    and rest: "exact_from (qty e + q) ((qty e * cost e + q * c) / (qty e + q)) ms"
    using Cons.prems(3) m by simp_all
  have nz: "qty e + q \<noteq> 0" using ex by (simp add: exact_merge_def)
  have "merged (qty e) (cost e) q c = Some (qty e + q, (qty e * cost e + q * c) / (qty e + q))"
    using ex by (rule merged_exact)
  with Cons.prems(1) have step: "addStock_portfolio sy q c pf = Some (replace_first ?P ?e' pf)"
    by (rule addStock_portfolio_existing)
  have f': "find_stock sy (replace_first ?P ?e' pf) = Some ?e'"
    using Cons.prems(1) by (simp add: find_stock_def find_replace_first)
  have nz': "qty ?e' \<noteq> 0" using nz by simp
  have rest': "exact_from (qty ?e') (cost ?e') ms" using rest by simp
  have basis: "qty ?e' * cost ?e' = qty e * cost e + q * c"
    using nz by simp
  have "addStock_seq sy ms (replace_first ?P ?e' pf) =
     Some (replace_first ?P
        \<lparr>symbol = sy, qty = qty ?e' + total_qty ms,
          cost = (qty ?e' * cost ?e' + total_basis ms) / (qty ?e' + total_qty ms)\<rparr>
        (replace_first ?P ?e' pf))"
    using f' nz' rest' by (rule Cons.IH)
  then show ?case
    using step m basis
    by (simp add: replace_first_twice total_qty_def total_basis_def add.assoc)
qed

lemma find_stock_append_new:
  "find_stock sy pf = None \<Longrightarrow> find_stock sy (pf @ [\<lparr>symbol = sy, qty = q, cost = c\<rparr>])
     = Some \<lparr>symbol = sy, qty = q, cost = c\<rparr>"
  unfolding find_stock_def by (induction pf) (auto split: if_splits)

lemma replace_first_append_new:
  "find_stock sy pf = None \<Longrightarrow>
   replace_first (\<lambda>s. symbol s = sy) y (pf @ [\<lparr>symbol = sy, qty = q, cost = c\<rparr>]) = pf @ [y]"
  unfolding find_stock_def by (induction pf) (auto split: if_splits)

lemma addStock_seq_fresh:
  assumes "find_stock sy pf = None" and "ms \<noteq> []" and "list_all valid_merge ms"
    and "exact_run sy ms pf"
  shows "addStock_seq sy ms pf =
     Some (pf @ [\<lparr>symbol = sy, qty = total_qty ms, cost = total_basis ms / total_qty ms\<rparr>])"
proof -
  obtain q c ms' where ms: "ms = (q, c) # ms'"
    using assms(2) by (cases ms) auto
  let ?n = "\<lparr>symbol = sy, qty = q, cost = c\<rparr>"
  have q: "qty ?n \<noteq> 0" using assms(3) ms by (simp add: valid_merge_def)
  have rest: "exact_from (qty ?n) (cost ?n) ms'"
    using assms(1,4) ms by (simp add: exact_run_def)
  have first: "addStock_portfolio sy q c pf = Some (pf @ [?n])"
    using assms(1) by (simp add: addStock_portfolio_def)
  have f: "find_stock sy (pf @ [?n]) = Some ?n"
    using assms(1) by (rule find_stock_append_new)
  have "addStock_seq sy ms' (pf @ [?n]) =
     Some (replace_first (\<lambda>s. symbol s = sy)
        \<lparr>symbol = sy, qty = qty ?n + total_qty ms',
          cost = (qty ?n * cost ?n + total_basis ms') / (qty ?n + total_qty ms')\<rparr> (pf @ [?n]))"
    using f q rest by (rule addStock_seq_existing)
  then show ?thesis
    using first ms assms(1)
    by (simp add: replace_first_append_new total_qty_def total_basis_def)
qed

lemma total_qty_mset: "mset ms' = mset ms \<Longrightarrow> total_qty ms' = total_qty ms"
  unfolding total_qty_def by (metis mset_map sum_mset_sum_list)

lemma total_basis_mset: "mset ms' = mset ms \<Longrightarrow> total_basis ms' = total_basis ms"
  unfolding total_basis_def by (metis mset_map sum_mset_sum_list)

lemma valid_merge_mset:
  "mset ms' = mset ms \<Longrightarrow> list_all valid_merge ms' = list_all valid_merge ms"
  by (metis list_all_iff mset_eq_setD)

lemma addStock_all_portfolio:
  "map_option portfolio (addStock_all sy ms st) = addStock_seq sy ms (portfolio st)"
proof (induction ms arbitrary: st)
  case Nil
  show ?case by simp
next
  case (Cons m ms)
  obtain q c where m: "m = (q, c)" by (cases m)
  show ?case
  proof (cases "addStock_portfolio sy q c (portfolio st)")
    case None
    then show ?thesis using m by (simp add: addStock_def)
  next
    case (Some pf')
    then show ?thesis using m Cons.IH by (simp add: addStock_def)
  qed
qed

lemma addStock_seq_permuted:
  assumes "position_positive sy pf"
    and "list_all valid_merge ms" and "mset ms' = mset ms"
    and "exact_run sy ms pf" and "exact_run sy ms' pf"
  shows "addStock_seq sy ms' pf = addStock_seq sy ms pf"
proof -
  have v: "list_all valid_merge ms'"
    using valid_merge_mset [OF assms(3)] assms(2) by blast
  have tq: "total_qty ms' = total_qty ms"
    using assms(3) by (rule total_qty_mset)
  have tb: "total_basis ms' = total_basis ms"
    using assms(3) by (rule total_basis_mset)
  show ?thesis
  proof (cases "find_stock sy pf")
    case None
    show ?thesis
    proof (cases "ms = []")
      case True
      then show ?thesis using assms(3) by simp
    next
      case False
      then have ne: "ms' \<noteq> []" using assms(3) by auto
      have "addStock_seq sy ms' pf =
         Some (pf @ [\<lparr>symbol = sy, qty = total_qty ms', cost = total_basis ms' / total_qty ms'\<rparr>])"
        using None ne v assms(5) by (rule addStock_seq_fresh)
      moreover have "addStock_seq sy ms pf =
         Some (pf @ [\<lparr>symbol = sy, qty = total_qty ms, cost = total_basis ms / total_qty ms\<rparr>])"
        using None False assms(2,4) by (rule addStock_seq_fresh)
      ultimately show ?thesis using tq tb by simp
    qed
  next
    case (Some e)
    then have pos: "qty e \<noteq> 0" using assms(1) by (simp add: position_positive_def)
    have e: "exact_from (qty e) (cost e) ms" "exact_from (qty e) (cost e) ms'"
      using Some assms(4,5) by (simp_all add: exact_run_def)
    have "addStock_seq sy ms' pf =
       Some (replace_first (\<lambda>s. symbol s = sy)
          \<lparr>symbol = sy, qty = qty e + total_qty ms',
            cost = (qty e * cost e + total_basis ms') / (qty e + total_qty ms')\<rparr> pf)"
      using Some pos e(2) by (rule addStock_seq_existing)
    moreover have "addStock_seq sy ms pf =
       Some (replace_first (\<lambda>s. symbol s = sy)
          \<lparr>symbol = sy, qty = qty e + total_qty ms,
            cost = (qty e * cost e + total_basis ms) / (qty e + total_qty ms)\<rparr> pf)"
      using Some pos e(1) by (rule addStock_seq_existing)
    ultimately show ?thesis using tq tb by simp
  qed
qed

lemma addStock_existing:
  assumes "find_stock sy (portfolio st) = Some e"
    and "merged (qty e) (cost e) q c = Some (tq, nc)"
  shows "\<exists>st'. addStock sy q c st = Some st' \<and>
     find_stock sy (portfolio st') = Some \<lparr>symbol = sy, qty = tq, cost = nc\<rparr>"
proof -
  let ?n = "\<lparr>symbol = sy, qty = tq, cost = nc\<rparr>"
  have "addStock_portfolio sy q c (portfolio st)
      = Some (replace_first (\<lambda>s. symbol s = sy) ?n (portfolio st))"
    using assms by (rule addStock_portfolio_existing)
  moreover have "find_stock sy (replace_first (\<lambda>s. symbol s = sy) ?n (portfolio st)) = Some ?n"
    using assms(1) by (simp add: find_stock_def find_replace_first)
  ultimately show ?thesis by (simp add: addStock_def)
qed

lemma addStock_all_existing:
  assumes "find_stock sy (portfolio st) = Some e" and "qty e \<noteq> 0"
    and "exact_from (qty e) (cost e) ms"
  shows "\<exists>st'. addStock_all sy ms st = Some st' \<and>
     find_stock sy (portfolio st') =
       Some \<lparr>symbol = sy, qty = qty e + total_qty ms,
          cost = (qty e * cost e + total_basis ms) / (qty e + total_qty ms)\<rparr>"
proof -
  let ?n = "\<lparr>symbol = sy, qty = qty e + total_qty ms,
          cost = (qty e * cost e + total_basis ms) / (qty e + total_qty ms)\<rparr>"
  have "map_option portfolio (addStock_all sy ms st)
      = Some (replace_first (\<lambda>s. symbol s = sy) ?n (portfolio st))"
    using addStock_seq_existing [OF assms] by (simp add: addStock_all_portfolio)
  then obtain st' where st': "addStock_all sy ms st = Some st'"
    and pf: "portfolio st' = replace_first (\<lambda>s. symbol s = sy) ?n (portfolio st)"
    by auto
  have "find_stock sy (replace_first (\<lambda>s. symbol s = sy) ?n (portfolio st)) = Some ?n"
    using assms(1) by (simp add: find_stock_def find_replace_first)
  then show ?thesis using st' pf by simp
qed

lemma addStock_all_fresh:
  assumes "find_stock sy (portfolio st) = None" and "ms \<noteq> []" and "list_all valid_merge ms"
    and "exact_run sy ms (portfolio st)"
  shows "\<exists>st'. addStock_all sy ms st = Some st' \<and>
     find_stock sy (portfolio st') =
       Some \<lparr>symbol = sy, qty = total_qty ms, cost = total_basis ms / total_qty ms\<rparr>"
proof -
  let ?n = "\<lparr>symbol = sy, qty = total_qty ms, cost = total_basis ms / total_qty ms\<rparr>"
  have "map_option portfolio (addStock_all sy ms st) = Some (portfolio st @ [?n])"
    using addStock_seq_fresh [OF assms] by (simp add: addStock_all_portfolio)
  then obtain st' where st': "addStock_all sy ms st = Some st'"
    and pf: "portfolio st' = portfolio st @ [?n]"
    by auto
  have "find_stock sy (portfolio st @ [?n]) = Some ?n"
    using assms(1) by (rule find_stock_append_new)
  then show ?thesis using st' pf by simp
qed



lemma round_even_numeral: "round_even (numeral k) = numeral k"
  using round_even_of_int [of "numeral k"] by simp

lemma round64_exact_at:
  assumes "0 < x" and "pow2 (e + 52) \<le> x" and "x < pow2 (e + 53)"
    and "- 1074 \<le> e" and "e < 971" and "x / pow2 e = of_int m"
  shows "round64 x = Some x"
proof -
  have "round64 x = Some (of_int (round_even (x / pow2 e)) * pow2 e)"
    using assms(1-5) by (rule round64_at)
  also have "of_int (round_even (x / pow2 e)) * pow2 e = (x / pow2 e) * pow2 e"
    by (simp only: assms(6) round_even_of_int)
  also have "\<dots> = x"
    using pow2_pos [of e] by simp
  finally show ?thesis .
qed

lemma is_double_numeral:
  "(numeral k :: int) < 2 ^ 53 \<Longrightarrow> is_double (numeral k)"
  using round64_int [of "numeral k"] by (simp add: is_double_def)

lemma doubles_example:
  "round64 (29 / 7) = Some (4664442471205157 / 1125899906842624)"
  "round64 (7 * (4664442471205157 / 1125899906842624))
     = Some (8162774324609025 / 281474976710656)"
  "round64 (8162774324609025 / 281474976710656 + 1) = Some (8444249301319681 / 281474976710656)"
  "round64 (8444249301319681 / 281474976710656 / 8) = Some (15 / 4 + 1 / 2 ^ 51)"
  "round64 (15 / 4) = Some (15 / 4)"
proof -
  have "round64 (29 / 7) = Some (of_int (round_even ((29 / 7) / pow2 (- 50))) * pow2 (- 50))"
    by (rule round64_at) (simp_all add: pow2_def)
  moreover have "(29 / 7 :: rat) / pow2 (- 50) = of_int 32651097298436096 / of_int 7"
    by (simp add: pow2_def)
  moreover have "round_even (of_int 32651097298436096 / of_int 7) = 4664442471205157"
    by (subst round_even_quotient) simp_all
  ultimately show "round64 (29 / 7) = Some (4664442471205157 / 1125899906842624)"
    by (simp add: pow2_def)
  let ?x = "7 * (4664442471205157 / 1125899906842624) :: rat"
  have "round64 ?x = Some (of_int (round_even (?x / pow2 (- 48))) * pow2 (- 48))"
    by (rule round64_at) (simp_all add: pow2_def)
  moreover have "?x / pow2 (- 48) = of_int 32651097298436099 / of_int 4"
    by (simp add: pow2_def)
  moreover have "round_even (of_int 32651097298436099 / of_int 4) = 8162774324609025"
    by (subst round_even_quotient) simp_all
  ultimately show "round64 ?x = Some (8162774324609025 / 281474976710656)"
    by (simp add: pow2_def)
  show "round64 (8162774324609025 / 281474976710656 + 1)
      = Some (8444249301319681 / 281474976710656)"
    using round64_exact_at [of "8162774324609025 / 281474976710656 + 1" "- 48" 8444249301319681]
    by (simp add: pow2_def)
  show "round64 (8444249301319681 / 281474976710656 / 8) = Some (15 / 4 + 1 / 2 ^ 51)"
    using round64_exact_at [of "8444249301319681 / 281474976710656 / 8" "- 51" 8444249301319681]
    by (simp add: pow2_def)
  show "round64 (15 / 4) = Some (15 / 4)"
    using round64_exact_at [of "15 / 4" "- 51" 8444249301319680]
    by (simp add: pow2_def)
qed

lemma small_doubles:
  "round64 24 = Some 24" "round64 5 = Some 5" "round64 29 = Some 29" "round64 7 = Some 7"
  "round64 1 = Some 1" "round64 6 = Some 6" "round64 2 = Some 2" "round64 3 = Some 3"
  "round64 30 = Some 30" "round64 8 = Some 8"
  using round64_int [of 24] round64_int [of 5] round64_int [of 29] round64_int [of 7]
    round64_int [of 1] round64_int [of 6] round64_int [of 2] round64_int [of 3]
    round64_int [of 30] round64_int [of 8]
  by simp_all

lemma exact_example:
  "exact_merge 10 100 10 200" "exact_from 10 100 [(10, 200), (20, 300)]"
  "exact_from 10 100 [(10, 200)]" "exact_from 10 200 [(10, 100)]"
  by (simp_all add: exact_merge_def is_double_numeral)

lemma merged_6_1_1:
  "merged 6 4 1 5 = Some (7, 4664442471205157 / 1125899906842624)"
  "merged 7 (4664442471205157 / 1125899906842624) 1 1 = Some (8, 15 / 4 + 1 / 2 ^ 51)"
  "merged 1 1 1 5 = Some (2, 3)"
  "merged 2 3 6 4 = Some (8, 15 / 4)"
proof -
  show "merged 6 4 1 5 = Some (7, 4664442471205157 / 1125899906842624)"
    by (rule merged_rounded [where a = 24 and b = 5 and t = 29])
      (simp_all add: small_doubles doubles_example)
  show "merged 7 (4664442471205157 / 1125899906842624) 1 1 = Some (8, 15 / 4 + 1 / 2 ^ 51)"
    by (rule merged_rounded [where a = "8162774324609025 / 281474976710656" and b = 1
          and t = "8444249301319681 / 281474976710656"])
      (simp_all only: small_doubles doubles_example mult_1 one_add_one, simp_all add: small_doubles)
  show "merged 1 1 1 5 = Some (2, 3)"
    by (rule merged_rounded [where a = 1 and b = 5 and t = 6]) (simp_all add: small_doubles)
  show "merged 2 3 6 4 = Some (8, 15 / 4)"
    by (rule merged_rounded [where a = 6 and b = 24 and t = 30])
      (simp_all add: small_doubles doubles_example)
qed

lemma addStock_all_6_1_1:
  "map_option portfolio (addStock_all ''A'' [(6, 4), (1, 5), (1, 1)] app0)
     = Some [\<lparr>symbol = ''A'', qty = 8, cost = 15 / 4 + 1 / 2 ^ 51\<rparr>]"
  "map_option portfolio (addStock_all ''A'' [(1, 1), (1, 5), (6, 4)] app0)
     = Some [\<lparr>symbol = ''A'', qty = 8, cost = 15 / 4\<rparr>]"
proof -
  have p: "portfolio app0 = []" by (simp add: app0_def)
  show "map_option portfolio (addStock_all ''A'' [(6, 4), (1, 5), (1, 1)] app0)
     = Some [\<lparr>symbol = ''A'', qty = 8, cost = 15 / 4 + 1 / 2 ^ 51\<rparr>]"
    unfolding addStock_all_portfolio p
    by (simp add: addStock_portfolio_def find_stock_def merged_6_1_1)
  show "map_option portfolio (addStock_all ''A'' [(1, 1), (1, 5), (6, 4)] app0)
     = Some [\<lparr>symbol = ''A'', qty = 8, cost = 15 / 4\<rparr>]"
    unfolding addStock_all_portfolio p
    by (simp add: addStock_portfolio_def find_stock_def merged_6_1_1)
qed

text \<open>
  Claim C1 fails as it is stated. The valid merges \<open>(6, 4)\<close>, \<open>(1, 5)\<close>, \<open>(1, 1)\<close> have the
  total cost basis 30 and the total quantity 8, an average of \<open>15 / 4\<close>. In this order
  \<open>addStock\<close> ends with the cost \<open>15 / 4 + 2 ^ -51\<close> (3.7500000000000004), the quotient
  \<open>29 / 7\<close> of the second merge being rounded; in the reverse order it ends with
  \<open>15 / 4\<close>.
\<close>

theorem addStock_order_counterexample:
  "list_all valid_merge [(6, 4), (1, 5), (1, 1)]
   \<and> mset [(1 :: rat, 1 :: rat), (1, 5), (6, 4)] = mset [(6, 4), (1, 5), (1, 1)]
   \<and> total_basis [(6, 4), (1, 5), (1, 1)] / total_qty [(6, 4), (1, 5), (1, 1)] = 15 / 4
   \<and> map_option portfolio (addStock_all ''A'' [(6, 4), (1, 5), (1, 1)] app0)
       = Some [\<lparr>symbol = ''A'', qty = 8, cost = 15 / 4 + 1 / 2 ^ 51\<rparr>]
   \<and> map_option portfolio (addStock_all ''A'' [(1, 1), (1, 5), (6, 4)] app0)
       = Some [\<lparr>symbol = ''A'', qty = 8, cost = 15 / 4\<rparr>]
   \<and> map_option portfolio (addStock_all ''A'' [(6, 4), (1, 5), (1, 1)] app0)
       \<noteq> map_option portfolio (addStock_all ''A'' [(1, 1), (1, 5), (6, 4)] app0)"
proof -
  have v: "list_all valid_merge [(6, 4), (1, 5), (1, 1)]"
    by (simp add: valid_merge_def)
  have m: "mset [(1 :: rat, 1 :: rat), (1, 5), (6, 4)] = mset [(6, 4), (1, 5), (1, 1)]"
    by (simp add: add.commute add.left_commute)
  have a: "total_basis [(6, 4), (1, 5), (1, 1)] / total_qty [(6, 4), (1, 5), (1, 1)] = 15 / 4"
    by (simp add: total_basis_def total_qty_def)
  have d: "(15 / 4 + 1 / 2 ^ 51 :: rat) \<noteq> 15 / 4" by simp
  show ?thesis
    unfolding addStock_all_6_1_1
    using v m a d by simp
qed

text \<open>
  Claim C1, amended. When the portfolio already has a position for the symbol, with
  quantity \<open>q0\<close> and cost \<open>c0\<close>, \<open>addStock\<close> with \<open>(q, c)\<close> leaves that position with
  the quantity \<open>q0 + q\<close> and the cost \<open>(q0 * c0 + q * c) / (q0 + q)\<close>, each of the five
  operations rounded to the nearest double; when none of them rounds, these are the
  exact sum and quotient. After a run of merges into one symbol in which no operation
  rounds, the cost is the total cost basis divided by the total quantity, whether the
  position existed before or the first merge created it, and two orders of the same
  valid merges that both run without rounding give the same portfolio. Merging
  \<open>(10, 100)\<close> and then \<open>(10, 200)\<close> gives quantity 20 at cost 150.
\<close>

theorem addStock_weighted_average:
  "(find_stock sy (portfolio st) = Some e
      \<and> round64 (qty e * cost e) = Some a \<and> round64 (q * c) = Some b
      \<and> round64 (a + b) = Some t \<and> round64 (qty e + q) = Some tq \<and> tq \<noteq> 0
      \<and> round64 (t / tq) = Some nc \<longrightarrow>
      (\<exists>st'. addStock sy q c st = Some st' \<and>
         find_stock sy (portfolio st') = Some \<lparr>symbol = sy, qty = tq, cost = nc\<rparr>))
   \<and> (find_stock sy (portfolio st) = Some e \<and> exact_merge (qty e) (cost e) q c \<longrightarrow>
      (\<exists>st'. addStock sy q c st = Some st' \<and>
         find_stock sy (portfolio st') =
           Some \<lparr>symbol = sy, qty = qty e + q,
              cost = (qty e * cost e + q * c) / (qty e + q)\<rparr>))
   \<and> (find_stock sy (portfolio st) = Some e \<and> 0 < qty e
        \<and> exact_run sy ms (portfolio st) \<longrightarrow>
      (\<exists>st'. addStock_all sy ms st = Some st' \<and>
         find_stock sy (portfolio st') =
           Some \<lparr>symbol = sy, qty = qty e + total_qty ms,
              cost = (qty e * cost e + total_basis ms) / (qty e + total_qty ms)\<rparr>))
   \<and> (find_stock sy (portfolio st) = None \<and> ms \<noteq> [] \<and> list_all valid_merge ms
        \<and> exact_run sy ms (portfolio st) \<longrightarrow>
      (\<exists>st'. addStock_all sy ms st = Some st' \<and>
         find_stock sy (portfolio st') =
           Some \<lparr>symbol = sy, qty = total_qty ms, cost = total_basis ms / total_qty ms\<rparr>))
   \<and> (position_positive sy (portfolio st) \<and> list_all valid_merge ms \<and> mset ms' = mset ms
        \<and> exact_run sy ms (portfolio st) \<and> exact_run sy ms' (portfolio st) \<longrightarrow>
      map_option portfolio (addStock_all sy ms' st) = map_option portfolio (addStock_all sy ms st))"
proof (intro conjI impI)
  assume h: "find_stock sy (portfolio st) = Some e
      \<and> round64 (qty e * cost e) = Some a \<and> round64 (q * c) = Some b
      \<and> round64 (a + b) = Some t \<and> round64 (qty e + q) = Some tq \<and> tq \<noteq> 0
      \<and> round64 (t / tq) = Some nc"
  then have "merged (qty e) (cost e) q c = Some (tq, nc)"
    by (intro merged_rounded [where a = a and b = b and t = t]) simp_all
  with h show "\<exists>st'. addStock sy q c st = Some st' \<and>
         find_stock sy (portfolio st') = Some \<lparr>symbol = sy, qty = tq, cost = nc\<rparr>"
    by (simp add: addStock_existing)
next
  assume h: "find_stock sy (portfolio st) = Some e \<and> exact_merge (qty e) (cost e) q c"
  then have "merged (qty e) (cost e) q c
      = Some (qty e + q, (qty e * cost e + q * c) / (qty e + q))"
    by (simp add: merged_exact)
  with h show "\<exists>st'. addStock sy q c st = Some st' \<and>
         find_stock sy (portfolio st') =
           Some \<lparr>symbol = sy, qty = qty e + q,
              cost = (qty e * cost e + q * c) / (qty e + q)\<rparr>"
    by (simp add: addStock_existing)
next
  assume h: "find_stock sy (portfolio st) = Some e \<and> 0 < qty e
        \<and> exact_run sy ms (portfolio st)"
  then have "exact_from (qty e) (cost e) ms" by (auto simp: exact_run_def)
  with h show "\<exists>st'. addStock_all sy ms st = Some st' \<and>
         find_stock sy (portfolio st') =
           Some \<lparr>symbol = sy, qty = qty e + total_qty ms,
              cost = (qty e * cost e + total_basis ms) / (qty e + total_qty ms)\<rparr>"
    by (simp add: addStock_all_existing)
next
  assume "find_stock sy (portfolio st) = None \<and> ms \<noteq> [] \<and> list_all valid_merge ms
        \<and> exact_run sy ms (portfolio st)"
  then show "\<exists>st'. addStock_all sy ms st = Some st' \<and>
         find_stock sy (portfolio st') =
           Some \<lparr>symbol = sy, qty = total_qty ms, cost = total_basis ms / total_qty ms\<rparr>"
    by (simp add: addStock_all_fresh)
next
  assume a: "position_positive sy (portfolio st) \<and> list_all valid_merge ms \<and> mset ms' = mset ms
        \<and> exact_run sy ms (portfolio st) \<and> exact_run sy ms' (portfolio st)"
  then have "addStock_seq sy ms' (portfolio st) = addStock_seq sy ms (portfolio st)"
    by (intro addStock_seq_permuted) simp_all
  then show "map_option portfolio (addStock_all sy ms' st)
      = map_option portfolio (addStock_all sy ms st)"
    by (simp add: addStock_all_portfolio)
qed

theorem addStock_weighted_average_witness:
  "(\<exists>st'. addStock ''A'' 1 1
        (app0\<lparr>portfolio := [\<lparr>symbol = ''A'', qty = 7,
            cost = 4664442471205157 / 1125899906842624\<rparr>]\<rparr>) = Some st' \<and>
       find_stock ''A'' (portfolio st')
         = Some \<lparr>symbol = ''A'', qty = 8, cost = 15 / 4 + 1 / 2 ^ 51\<rparr>)
   \<and> (\<exists>st'. addStock ''AAPL'' 10 200
          (app0\<lparr>portfolio := [\<lparr>symbol = ''AAPL'', qty = 10, cost = 100\<rparr>]\<rparr>) = Some st' \<and>
       find_stock ''AAPL'' (portfolio st') = Some \<lparr>symbol = ''AAPL'', qty = 20, cost = 150\<rparr>)
   \<and> (\<exists>st'. addStock_all ''AAPL'' [(10, 200), (20, 300)]
          (app0\<lparr>portfolio := [\<lparr>symbol = ''AAPL'', qty = 10, cost = 100\<rparr>]\<rparr>) = Some st' \<and>
       find_stock ''AAPL'' (portfolio st') = Some \<lparr>symbol = ''AAPL'', qty = 40, cost = 225\<rparr>)
   \<and> (\<exists>st'. addStock_all ''AAPL'' [(10, 100), (10, 200)] app0 = Some st' \<and>
       find_stock ''AAPL'' (portfolio st') = Some \<lparr>symbol = ''AAPL'', qty = 20, cost = 150\<rparr>)
   \<and> map_option portfolio (addStock_all ''AAPL'' [(10, 200), (10, 100)] app0)
       = map_option portfolio (addStock_all ''AAPL'' [(10, 100), (10, 200)] app0)"
proof -
  let ?r = "\<lparr>symbol = ''A'', qty = 7, cost = 4664442471205157 / 1125899906842624\<rparr>"
  let ?sr = "app0\<lparr>portfolio := [?r]\<rparr>"
  let ?e = "\<lparr>symbol = ''AAPL'', qty = 10, cost = 100\<rparr>"
  let ?st = "app0\<lparr>portfolio := [?e]\<rparr>"
  have fr: "find_stock ''A'' (portfolio ?sr) = Some ?r"
    by (simp add: find_stock_def)
  have f1: "find_stock ''AAPL'' (portfolio ?st) = Some ?e"
    by (simp add: find_stock_def)
  have f0: "find_stock ''AAPL'' (portfolio app0) = None"
    by (simp add: find_stock_def app0_def)
  have v0: "list_all valid_merge [(10, 100), (10, 200)]"
    by (simp add: valid_merge_def)
  have x1: "exact_run ''AAPL'' [(10, 200), (20, 300)] (portfolio ?st)"
    using exact_example(2) by (simp add: exact_run_def find_stock_def)
  have x0: "exact_run ''AAPL'' [(10, 100), (10, 200)] (portfolio app0)"
    using exact_example(3) by (simp add: exact_run_def f0)
  have x0': "exact_run ''AAPL'' [(10, 200), (10, 100)] (portfolio app0)"
    using exact_example(4) by (simp add: exact_run_def f0)
  have pp: "position_positive ''AAPL'' (portfolio app0)"
    by (simp add: position_positive_def f0)
  have m: "mset [(10::rat, 200::rat), (10, 100)] = mset [(10, 100), (10, 200)]"
    by simp
  have r: "\<exists>st'. addStock ''A'' 1 1 ?sr = Some st' \<and>
       find_stock ''A'' (portfolio st')
         = Some \<lparr>symbol = ''A'', qty = 8, cost = 15 / 4 + 1 / 2 ^ 51\<rparr>"
    using addStock_weighted_average
      [of "''A''" ?sr ?r "8162774324609025 / 281474976710656" 1 1 1
        "8444249301319681 / 281474976710656" 8 "15 / 4 + 1 / 2 ^ 51" "[]" "[]"]
      fr doubles_example small_doubles
    by simp
  have a: "\<exists>st'. addStock ''AAPL'' 10 200 ?st = Some st' \<and>
       find_stock ''AAPL'' (portfolio st') = Some \<lparr>symbol = ''AAPL'', qty = 20, cost = 150\<rparr>"
    using addStock_weighted_average [of "''AAPL''" ?st ?e 0 10 200 0 0 0 0 "[]" "[]"]
      f1 exact_example(1)
    by simp
  have b: "\<exists>st'. addStock_all ''AAPL'' [(10, 200), (20, 300)] ?st = Some st' \<and>
       find_stock ''AAPL'' (portfolio st') = Some \<lparr>symbol = ''AAPL'', qty = 40, cost = 225\<rparr>"
    using addStock_weighted_average
      [of "''AAPL''" ?st ?e 0 0 0 0 0 0 0 "[(10, 200), (20, 300)]" "[]"] f1 x1
    by (simp add: total_qty_def total_basis_def)
  have c: "\<exists>st'. addStock_all ''AAPL'' [(10, 100), (10, 200)] app0 = Some st' \<and>
       find_stock ''AAPL'' (portfolio st') = Some \<lparr>symbol = ''AAPL'', qty = 20, cost = 150\<rparr>"
    using addStock_weighted_average
      [of "''AAPL''" app0 ?e 0 0 0 0 0 0 0 "[(10, 100), (10, 200)]" "[]"] f0 v0 x0
    by (simp add: total_qty_def total_basis_def)
  have d: "map_option portfolio (addStock_all ''AAPL'' [(10, 200), (10, 100)] app0)
       = map_option portfolio (addStock_all ''AAPL'' [(10, 100), (10, 200)] app0)"
    using addStock_weighted_average
      [of "''AAPL''" app0 ?e 0 0 0 0 0 0 0 "[(10, 100), (10, 200)]" "[(10, 200), (10, 100)]"]
      pp v0 m x0 x0'
    by blast
  show ?thesis using r a b c d by blast
qed

section \<open>Properties of the form\<close>

text \<open>
  \<open>addStock\<close> itself tests nothing: the tests on quantity and cost are those of the
  \<open>submit\<close> listener.
\<close>

lemma addStock_does_not_validate:
  "map_option portfolio (addStock ''X'' 0 100 app0) = Some [\<lparr>symbol = ''X'', qty = 0, cost = 100\<rparr>]"
  by (simp add: addStock_def addStock_portfolio_def find_stock_def app0_def)

text \<open>
  Claim C3 fails as it is stated: nothing fails with an error. For the quantity 0 at
  cost 100, and for the quantity 5 at cost -1, the listener returns as it does for an
  empty ticker: it has thrown nothing and shown nothing, and the state is the one from
  before.
\<close>

theorem submit_invalid_counterexample:
  "submit ''AAPL'' (Some 0) (Some 100) app0
     = Some \<lparr>state_after = app0, form_reset = False, thrown = None, alerted = []\<rparr>
   \<and> submit ''AAPL'' (Some 5) (Some (- 1)) app0
     = Some \<lparr>state_after = app0, form_reset = False, thrown = None, alerted = []\<rparr>
   \<and> submit [] (Some 5) (Some 1) app0
     = Some \<lparr>state_after = app0, form_reset = False, thrown = None, alerted = []\<rparr>"
  by (simp add: submit_def)

text \<open>
  Claim C3, amended. With a quantity that is 0 or less, or a cost below 0, the \<open>submit\<close>
  listener does not call \<open>addStock\<close>: it changes nothing of the state (no position is
  added, none is changed, nothing is saved) and does not reset the form; and it does so
  silently, without throwing an error or showing a message.
\<close>

theorem submit_rejects_invalid:
  "(quantity \<le> 0 \<or> cst < 0) \<longrightarrow>
     submit ticker (Some quantity) (Some cst) st
       = Some \<lparr>state_after = st, form_reset = False, thrown = None, alerted = []\<rparr>"
proof
  assume "quantity \<le> 0 \<or> cst < 0"
  then have "\<not> (ticker \<noteq> [] \<and> 0 < quantity \<and> 0 \<le> cst)"
    by auto
  then show "submit ticker (Some quantity) (Some cst) st
       = Some \<lparr>state_after = st, form_reset = False, thrown = None, alerted = []\<rparr>"
    unfolding submit_def Let_def by (simp only: if_False option.case)
qed

theorem submit_rejects_invalid_witness:
  "submit ''AAPL'' (Some 0) (Some 100)
       (app0\<lparr>portfolio := [\<lparr>symbol = ''AAPL'', qty = 10, cost = 150\<rparr>]\<rparr>)
     = Some \<lparr>state_after = app0\<lparr>portfolio := [\<lparr>symbol = ''AAPL'', qty = 10, cost = 150\<rparr>]\<rparr>,
             form_reset = False, thrown = None, alerted = []\<rparr>
   \<and> submit ''AAPL'' (Some 5) (Some (- 1)) app0
     = Some \<lparr>state_after = app0, form_reset = False, thrown = None, alerted = []\<rparr>
   \<and> (\<exists>st'. submit ''AAPL'' (Some 5) (Some 1) app0
         = Some \<lparr>state_after = st', form_reset = True, thrown = None, alerted = []\<rparr>
         \<and> portfolio st' = [\<lparr>symbol = ''AAPL'', qty = 5, cost = 1\<rparr>])"
proof -
  have a: "submit ''AAPL'' (Some 0) (Some 100)
       (app0\<lparr>portfolio := [\<lparr>symbol = ''AAPL'', qty = 10, cost = 150\<rparr>]\<rparr>)
     = Some \<lparr>state_after = app0\<lparr>portfolio := [\<lparr>symbol = ''AAPL'', qty = 10, cost = 150\<rparr>]\<rparr>,
             form_reset = False, thrown = None, alerted = []\<rparr>"
    using submit_rejects_invalid [of 0 100 "''AAPL''"] by simp
  have b: "submit ''AAPL'' (Some 5) (Some (- 1)) app0
     = Some \<lparr>state_after = app0, form_reset = False, thrown = None, alerted = []\<rparr>"
    using submit_rejects_invalid [of 5 "- 1" "''AAPL''" app0] by simp
  have c: "\<exists>st'. submit ''AAPL'' (Some 5) (Some 1) app0
         = Some \<lparr>state_after = st', form_reset = True, thrown = None, alerted = []\<rparr>
         \<and> portfolio st' = [\<lparr>symbol = ''AAPL'', qty = 5, cost = 1\<rparr>]"
    by (simp add: submit_def addStock_def addStock_portfolio_def find_stock_def app0_def)
  show ?thesis using a b c by blast
qed

section \<open>Properties of deleteStock\<close>

text \<open>
  Claim C10. \<open>deleteStock\<close> leaves \<open>stockData\<close> as it was: the entry of the removed
  symbol stays, and no entry of another symbol changes.
\<close>

theorem deleteStock_keeps_cache:
  "stockData (deleteStock sy st) = stockData st"
proof -
  have "deleteStock sy st = st\<lparr>portfolio := filter (\<lambda>s. symbol s \<noteq> sy) (portfolio st),
      saved := Some (filter (\<lambda>s. symbol s \<noteq> sy) (portfolio st))\<rparr>"
    by (simp add: deleteStock_def Let_def)
  then show ?thesis by simp
qed

theorem deleteStock_keeps_cache_witness:
  "stockData
     (deleteStock ''AAPL''
        (app0\<lparr> portfolio := [\<lparr>symbol = ''AAPL'', qty = 10, cost = 150\<rparr>],
               stockData := (\<lambda>_. None)(''AAPL'' \<mapsto> \<lparr>price = Some 180, change = Some 5,
                  history = \<lparr>timestamp = Null, close = Null\<rparr>\<rparr>) \<rparr>)) ''AAPL''
     = Some \<lparr>price = Some 180, change = Some 5, history = \<lparr>timestamp = Null, close = Null\<rparr>\<rparr>
   \<and> portfolio
     (deleteStock ''AAPL''
        (app0\<lparr> portfolio := [\<lparr>symbol = ''AAPL'', qty = 10, cost = 150\<rparr>],
               stockData := (\<lambda>_. None)(''AAPL'' \<mapsto> \<lparr>price = Some 180, change = Some 5,
                  history = \<lparr>timestamp = Null, close = Null\<rparr>\<rparr>) \<rparr>)) = []"
proof -
  let ?st = "app0\<lparr> portfolio := [\<lparr>symbol = ''AAPL'', qty = 10, cost = 150\<rparr>],
               stockData := (\<lambda>_. None)(''AAPL'' \<mapsto> \<lparr>price = Some 180, change = Some 5,
                  history = \<lparr>timestamp = Null, close = Null\<rparr>\<rparr>) \<rparr>"
  have "stockData (deleteStock ''AAPL'' ?st) ''AAPL''
     = Some \<lparr>price = Some 180, change = Some 5, history = \<lparr>timestamp = Null, close = Null\<rparr>\<rparr>"
    using deleteStock_keeps_cache [of "''AAPL''" ?st] by simp
  moreover have "portfolio (deleteStock ''AAPL'' ?st) = []"
    by (simp add: deleteStock_def)
  ultimately show ?thesis by simp
qed

section \<open>Positions without a cache entry\<close>

lemma updateSummary_fields:
  "totalInv (updateSummary pf sd) = sum_list (map invested pf)"
  "currentVal (updateSummary pf sd) = sum_list (map (valued sd) pf)"
  "hasData (updateSummary pf sd) = list_ex (priced sd) pf"
  by (simp_all add: updateSummary_def summary_forEach_acc)

text \<open>
  Claim C4. For a position whose symbol has no entry in \<open>stockData\<close>, the loop of
  \<open>updateSummary\<close> adds \<open>qty * cost\<close> to the invested total, adds nothing to the current
  value and leaves \<open>hasData\<close> as it is; so the summary of a portfolio with the position
  is that of the portfolio without it, but for the invested total. \<open>renderTable\<close>
  shows the position as loading: \<open>Loading...\<close> for the price, the placeholder for value
  and profit, and the neutral class.
\<close>

theorem no_cache_entry_is_loading:
  "stockData st (symbol s) = None \<longrightarrow>
     summary_forEach (stockData st) (s # ss) (a, b, h)
       = summary_forEach (stockData st) ss (a + qty s * cost s, b, h)
   \<and> totalInv (updateSummary (xs @ s # ys) (stockData st))
       = totalInv (updateSummary (xs @ ys) (stockData st)) + qty s * cost s
   \<and> currentVal (updateSummary (xs @ s # ys) (stockData st))
       = currentVal (updateSummary (xs @ ys) (stockData st))
   \<and> hasData (updateSummary (xs @ s # ys) (stockData st))
       = hasData (updateSummary (xs @ ys) (stockData st))
   \<and> price_cell (render_row (stockData st) s) = None
   \<and> value_cell (render_row (stockData st) s) = None
   \<and> pl_cell (render_row (stockData st) s) = None
   \<and> plClass (render_row (stockData st) s) = Neutral"
proof
  assume none: "stockData st (symbol s) = None"
  have z: "price_or_zero (stockData st) (symbol s) = Some 0"
    using none by (simp add: price_or_zero_def)
  have u: "usable_price (stockData st) (symbol s) = None"
    using none by (simp add: usable_price_def)
  have step: "summary_forEach (stockData st) (s # ss) (a, b, h)
       = summary_forEach (stockData st) ss (a + qty s * cost s, b, h)"
    using z by simp
  have v: "valued (stockData st) s = 0" and p: "\<not> priced (stockData st) s"
    using u by (simp_all add: valued_def priced_def)
  have inv: "totalInv (updateSummary (xs @ s # ys) (stockData st))
       = totalInv (updateSummary (xs @ ys) (stockData st)) + qty s * cost s"
    by (simp add: updateSummary_fields invested_def)
  have cur: "currentVal (updateSummary (xs @ s # ys) (stockData st))
       = currentVal (updateSummary (xs @ ys) (stockData st))"
    using v by (simp add: updateSummary_fields)
  have has: "hasData (updateSummary (xs @ s # ys) (stockData st))
       = hasData (updateSummary (xs @ ys) (stockData st))"
    using p by (simp add: updateSummary_fields)
  have row: "price_cell (render_row (stockData st) s) = None"
    "value_cell (render_row (stockData st) s) = None"
    "pl_cell (render_row (stockData st) s) = None"
    "plClass (render_row (stockData st) s) = Neutral"
    using z by (simp_all add: render_row_def)
  show "summary_forEach (stockData st) (s # ss) (a, b, h)
       = summary_forEach (stockData st) ss (a + qty s * cost s, b, h)
   \<and> totalInv (updateSummary (xs @ s # ys) (stockData st))
       = totalInv (updateSummary (xs @ ys) (stockData st)) + qty s * cost s
   \<and> currentVal (updateSummary (xs @ s # ys) (stockData st))
       = currentVal (updateSummary (xs @ ys) (stockData st))
   \<and> hasData (updateSummary (xs @ s # ys) (stockData st))
       = hasData (updateSummary (xs @ ys) (stockData st))
   \<and> price_cell (render_row (stockData st) s) = None
   \<and> value_cell (render_row (stockData st) s) = None
   \<and> pl_cell (render_row (stockData st) s) = None
   \<and> plClass (render_row (stockData st) s) = Neutral"
    using step inv cur has row by simp
qed

theorem no_cache_entry_is_loading_witness:
  "stockData (app0\<lparr>stockData := (\<lambda>_. None)(''AAPL'' \<mapsto> \<lparr>price = Some 180, change = Some 5,
        history = \<lparr>timestamp = Null, close = Null\<rparr>\<rparr>)\<rparr>) ''MSFT'' = None
   \<and> totalInv (updateSummary
        [\<lparr>symbol = ''AAPL'', qty = 10, cost = 150\<rparr>, \<lparr>symbol = ''MSFT'', qty = 5, cost = 200\<rparr>]
        ((\<lambda>_. None)(''AAPL'' \<mapsto> \<lparr>price = Some 180, change = Some 5,
           history = \<lparr>timestamp = Null, close = Null\<rparr>\<rparr>))) = 2500
   \<and> currentVal (updateSummary
        [\<lparr>symbol = ''AAPL'', qty = 10, cost = 150\<rparr>, \<lparr>symbol = ''MSFT'', qty = 5, cost = 200\<rparr>]
        ((\<lambda>_. None)(''AAPL'' \<mapsto> \<lparr>price = Some 180, change = Some 5,
           history = \<lparr>timestamp = Null, close = Null\<rparr>\<rparr>))) = 1800
   \<and> price_cell (render_row
        ((\<lambda>_. None)(''AAPL'' \<mapsto> \<lparr>price = Some 180, change = Some 5,
           history = \<lparr>timestamp = Null, close = Null\<rparr>\<rparr>))
        \<lparr>symbol = ''MSFT'', qty = 5, cost = 200\<rparr>) = None"
proof -
  let ?sd = "(\<lambda>_. None)(''AAPL'' \<mapsto> \<lparr>price = Some 180, change = Some 5,
           history = \<lparr>timestamp = Null, close = Null\<rparr>\<rparr>)"
  let ?st = "app0\<lparr>stockData := ?sd\<rparr>"
  let ?a = "\<lparr>symbol = ''AAPL'', qty = 10, cost = 150\<rparr>"
  let ?m = "\<lparr>symbol = ''MSFT'', qty = 5, cost = 200\<rparr>"
  have none: "stockData ?st (symbol ?m) = None" by simp
  have base: "totalInv (updateSummary [?a] ?sd) = 1500" "currentVal (updateSummary [?a] ?sd) = 1800"
    by (simp_all add: updateSummary_def price_or_zero_def)
  have "totalInv (updateSummary ([?a] @ ?m # []) (stockData ?st))
       = totalInv (updateSummary ([?a] @ []) (stockData ?st)) + qty ?m * cost ?m
     \<and> currentVal (updateSummary ([?a] @ ?m # []) (stockData ?st))
       = currentVal (updateSummary ([?a] @ []) (stockData ?st))
     \<and> price_cell (render_row (stockData ?st) ?m) = None"
    using no_cache_entry_is_loading [of ?st ?m "[]" 0 0 False "[?a]" "[]"] none by blast
  then show ?thesis using base by simp
qed

section \<open>Properties of fetchStockData and fetchAllData\<close>

lemma fetchStockData_result:
  assumes "env (now st) sy = (ans, latency)"
  shows "fetchStockData env sy st =
     (st\<lparr> stockData := (case ans of Throws err \<Rightarrow> stockData st
                                   | Quote r \<Rightarrow> (stockData st)(sy \<mapsto> quote_record r)),
          console := (case ans of Throws err \<Rightarrow> console st @ [sy] | Quote r \<Rightarrow> console st),
          now := now st + latency,
          requests := requests st @
            [\<lparr>req_symbol = sy, issued = now st, settled = now st + latency, answer = ans\<rparr>] \<rparr>,
      Resolved)"
  using assms by (cases ans) (simp_all add: fetchStockData_def fetch_try_def)

lemma spaced_earlier: "spaced d t rqs \<Longrightarrow> t' \<le> t \<Longrightarrow> spaced d t' rqs"
  by (cases rqs) auto

lemma fetchAllData_loop_run:
  "\<exists>st' rqs. fetchAllData_loop env lag pf st = (st', Resolved)
     \<and> requests st' = requests st @ rqs
     \<and> map req_symbol rqs = map symbol pf
     \<and> spaced 500 (now st) rqs
     \<and> list_all (answered env) rqs
     \<and> now st + 500 * length pf \<le> now st'
     \<and> portfolio st' = portfolio st
     \<and> (\<forall>sy. stockData st' sy =
           (case last_quote sy rqs of None \<Rightarrow> stockData st sy | Some r \<Rightarrow> Some (quote_record r)))"
proof (induction pf arbitrary: st)
  case Nil
  show ?case by simp
next
  case (Cons s ss)
  obtain ans latency where e: "env (now st) (symbol s) = (ans, latency)"
    by (cases "env (now st) (symbol s)")
  let ?rq = "\<lparr>req_symbol = symbol s, issued = now st, settled = now st + latency, answer = ans\<rparr>"
  let ?sd = "case ans of Throws err \<Rightarrow> stockData st
                        | Quote r \<Rightarrow> (stockData st)(symbol s \<mapsto> quote_record r)"
  let ?st1 = "st\<lparr> stockData := ?sd,
          console := (case ans of Throws err \<Rightarrow> console st @ [symbol s] | Quote r \<Rightarrow> console st),
          now := now st + latency,
          requests := requests st @ [?rq] \<rparr>"
  let ?st2 = "?st1\<lparr>now := now ?st1 + 500 + lag (now ?st1)\<rparr>"
  have one: "fetchStockData env (symbol s) st = (?st1, Resolved)"
    using e by (rule fetchStockData_result)
  from Cons.IH [of ?st2] obtain st' rqs where
    run: "fetchAllData_loop env lag ss ?st2 = (st', Resolved)"
    and rq: "requests st' = requests ?st2 @ rqs"
    and sy: "map req_symbol rqs = map symbol ss"
    and sp: "spaced 500 (now ?st2) rqs"
    and an: "list_all (answered env) rqs"
    and t: "now ?st2 + 500 * length ss \<le> now st'"
    and pf: "portfolio st' = portfolio ?st2"
    and sd: "\<forall>sy. stockData st' sy =
           (case last_quote sy rqs of None \<Rightarrow> stockData ?st2 sy | Some r \<Rightarrow> Some (quote_record r))"
    by blast
  have 1: "fetchAllData_loop env lag (s # ss) st = (st', Resolved)"
    using one run by simp
  have 2: "requests st' = requests st @ (?rq # rqs)"
    using rq by simp
  have 3: "map req_symbol (?rq # rqs) = map symbol (s # ss)"
    using sy by simp
  have "spaced 500 (settled ?rq + 500) rqs"
    using sp by (rule spaced_earlier) simp
  then have 4: "spaced 500 (now st) (?rq # rqs)"
    by simp
  have 8: "list_all (answered env) (?rq # rqs)"
    using an e by (simp add: answered_def)
  have 5: "now st + 500 * length (s # ss) \<le> now st'"
    using t by simp
  have 6: "portfolio st' = portfolio st"
    using pf by simp
  have 7: "stockData st' x =
           (case last_quote x (?rq # rqs) of None \<Rightarrow> stockData st x | Some r \<Rightarrow> Some (quote_record r))"
    for x
  proof (cases "last_quote x rqs")
    case (Some r)
    then show ?thesis using sd by simp
  next
    case None
    then have "stockData st' x = ?sd x" using sd by simp
    then show ?thesis using None by (cases ans) simp_all
  qed
  show ?case
    using 1 2 3 4 5 6 7 8 by blast
qed

lemma last_quote_absent:
  "sy \<notin> set (map req_symbol rqs) \<Longrightarrow> last_quote sy rqs = None"
  by (induction rqs) (auto split: provider_answer.splits)

lemma last_quote_distinct:
  "distinct (map req_symbol rqs) \<Longrightarrow> rq \<in> set rqs \<Longrightarrow>
   last_quote (req_symbol rq) rqs = (case answer rq of Throws err \<Rightarrow> None | Quote r \<Rightarrow> Some r)"
proof (induction rqs)
  case Nil
  then show ?case by simp
next
  case (Cons a rqs)
  show ?case
  proof (cases "rq = a")
    case True
    then have "req_symbol rq \<notin> set (map req_symbol rqs)" using Cons.prems(1) by simp
    then have "last_quote (req_symbol rq) rqs = None" by (rule last_quote_absent)
    then show ?thesis using True by (simp split: provider_answer.splits)
  next
    case False
    then have in_rest: "rq \<in> set rqs" using Cons.prems(2) by simp
    then have ne: "req_symbol a \<noteq> req_symbol rq" using Cons.prems(1) by force
    have "last_quote (req_symbol rq) rqs
        = (case answer rq of Throws err \<Rightarrow> None | Quote r \<Rightarrow> Some r)"
      using Cons.prems(1) in_rest by (simp add: Cons.IH)
    then show ?thesis using ne by (simp split: provider_answer.splits option.splits)
  qed
qed

lemma fetchAllData_run:
  "snd (fetchAllData env lag st) = Resolved
   \<and> requests (fst (fetchAllData env lag st))
       = requests st @ batch_log st (fst (fetchAllData env lag st))
   \<and> map req_symbol (batch_log st (fst (fetchAllData env lag st))) = map symbol (portfolio st)
   \<and> spaced 500 (now st) (batch_log st (fst (fetchAllData env lag st)))
   \<and> list_all (answered env) (batch_log st (fst (fetchAllData env lag st)))
   \<and> now st + 500 * length (portfolio st) \<le> now (fst (fetchAllData env lag st))
   \<and> portfolio (fst (fetchAllData env lag st)) = portfolio st
   \<and> (\<forall>sy. stockData (fst (fetchAllData env lag st)) sy =
         (case last_quote sy (batch_log st (fst (fetchAllData env lag st))) of
            None \<Rightarrow> stockData st sy | Some r \<Rightarrow> Some (quote_record r)))"
proof -
  obtain st' rqs where
    run: "fetchAllData_loop env lag (portfolio st) st = (st', Resolved)"
    and rq: "requests st' = requests st @ rqs"
    and rest: "map req_symbol rqs = map symbol (portfolio st)"
      "spaced 500 (now st) rqs"
      "list_all (answered env) rqs"
      "now st + 500 * length (portfolio st) \<le> now st'"
      "portfolio st' = portfolio st"
      "\<forall>sy. stockData st' sy =
           (case last_quote sy rqs of None \<Rightarrow> stockData st sy | Some r \<Rightarrow> Some (quote_record r))"
    using fetchAllData_loop_run [of env lag "portfolio st" st] by blast
  have f: "fetchAllData env lag st = (st', Resolved)"
    using run by (simp add: fetchAllData_def)
  have b: "batch_log st st' = rqs"
    using rq by (simp add: batch_log_def)
  show ?thesis
    using rq rest by (simp add: f b)
qed

lemma fetchAllData_app3:
  "fetchAllData env0 (\<lambda>t. 7) app3 =
     (app3\<lparr> stockData := (\<lambda>_. None)(''A'' \<mapsto> quote_record quote0, ''C'' \<mapsto> quote_record quote0),
            console := [''B''],
            now := 1621,
            requests :=
              [\<lparr>req_symbol = ''A'', issued = 0, settled = 30, answer = Quote quote0\<rparr>,
               \<lparr>req_symbol = ''B'', issued = 537, settled = 577, answer = Throws FetchFailed\<rparr>,
               \<lparr>req_symbol = ''C'', issued = 1084, settled = 1114, answer = Quote quote0\<rparr>] \<rparr>,
      Resolved)"
  by (simp add: fetchAllData_def fetchStockData_def fetch_try_def env0_def app3_def app0_def)


lemma app3_requests: "requests app3 = []"
  by (simp add: app3_def app0_def)

text \<open>
  Claim C8. When the provider answers with a quote that has a current price and a
  previous close, \<open>fetchStockData\<close> stores under the symbol the record made of the
  price, of the price minus the previous close, and of the history; the record
  replaces the entry the symbol had, and no other entry changes. The call ends
  normally and reports nothing with \<open>console.error\<close>.
\<close>

theorem fetchStockData_stores_quote:
  "env (now st) sy = (Quote r, latency)
     \<and> regularMarketPrice r = Some currentPrice \<and> chartPreviousClose r = Some previousClose \<longrightarrow>
   snd (fetchStockData env sy st) = Resolved
   \<and> stockData (fst (fetchStockData env sy st))
       = (stockData st)(sy \<mapsto> \<lparr> price = Some currentPrice,
            change = Some (currentPrice - previousClose),
            history = \<lparr>timestamp = result_timestamp r, close = quote_close r\<rparr> \<rparr>)
   \<and> console (fst (fetchStockData env sy st)) = console st
   \<and> portfolio (fst (fetchStockData env sy st)) = portfolio st"
proof
  assume a: "env (now st) sy = (Quote r, latency)
     \<and> regularMarketPrice r = Some currentPrice \<and> chartPreviousClose r = Some previousClose"
  then have e: "env (now st) sy = (Quote r, latency)" by simp
  have q: "quote_record r = \<lparr> price = Some currentPrice,
            change = Some (currentPrice - previousClose),
            history = \<lparr>timestamp = result_timestamp r, close = quote_close r\<rparr> \<rparr>"
    using a by (simp add: quote_record_def js_minus_def)
  show "snd (fetchStockData env sy st) = Resolved
   \<and> stockData (fst (fetchStockData env sy st))
       = (stockData st)(sy \<mapsto> \<lparr> price = Some currentPrice,
            change = Some (currentPrice - previousClose),
            history = \<lparr>timestamp = result_timestamp r, close = quote_close r\<rparr> \<rparr>)
   \<and> console (fst (fetchStockData env sy st)) = console st
   \<and> portfolio (fst (fetchStockData env sy st)) = portfolio st"
    using q fetchStockData_result [of env st sy "Quote r" latency, OF e] by simp
qed

theorem fetchStockData_stores_quote_witness:
  "env0 (now app0) ''AAPL'' = (Quote quote0, 30)
   \<and> snd (fetchStockData env0 ''AAPL'' app0) = Resolved
   \<and> stockData (fst (fetchStockData env0 ''AAPL'' app0)) ''AAPL''
       = Some \<lparr> price = Some 180, change = Some 5,
            history = \<lparr>timestamp = Arr [Num 1700000000], close = Arr [Num 180]\<rparr> \<rparr>
   \<and> console (fst (fetchStockData env0 ''AAPL'' app0)) = []"
proof -
  have e: "env0 (now app0) ''AAPL'' = (Quote quote0, 30)"
    by (simp add: env0_def)
  have r: "regularMarketPrice quote0 = Some 180" "chartPreviousClose quote0 = Some 175"
    "result_timestamp quote0 = Arr [Num 1700000000]" "quote_close quote0 = Arr [Num 180]"
    by (simp_all add: quote0_def)
  have c: "console app0 = []" by (simp add: app0_def)
  show ?thesis
    using fetchStockData_stores_quote [of env0 app0 "''AAPL''" quote0 30 180 175] e r c
    by simp
qed

text \<open>
  Errors that are thrown are kept apart. Whatever the provider answers,
  \<open>fetchAllData\<close> ends normally and has requested every symbol of the portfolio, in
  order: a request on which the \<open>try\<close> block throws stops nothing. Afterwards the entry
  of a symbol is the record \<open>{ price, change, history }\<close> of the last quote the run
  received for it, and the entry it had before when the run received none. When the
  symbols of the portfolio are distinct: the record of its quote for a request that was
  answered with one, the entry from before the run (or none) for a request that threw.
\<close>

lemma fetchAllData_isolates_thrown_errors:
  "snd (fetchAllData env lag st) = Resolved
   \<and> map req_symbol (batch_log st (fst (fetchAllData env lag st))) = map symbol (portfolio st)
   \<and> list_all (answered env) (batch_log st (fst (fetchAllData env lag st)))
   \<and> (\<forall>sy. stockData (fst (fetchAllData env lag st)) sy =
         (case last_quote sy (batch_log st (fst (fetchAllData env lag st))) of
            None \<Rightarrow> stockData st sy
          | Some r \<Rightarrow>
              Some \<lparr> price = regularMarketPrice r,
                     change = js_minus (regularMarketPrice r) (chartPreviousClose r),
                     history = \<lparr>timestamp = result_timestamp r, close = quote_close r\<rparr> \<rparr>))
   \<and> (distinct (map symbol (portfolio st)) \<longrightarrow>
        (\<forall>rq \<in> set (batch_log st (fst (fetchAllData env lag st))).
           stockData (fst (fetchAllData env lag st)) (req_symbol rq) =
             (case answer rq of
                Throws err \<Rightarrow> stockData st (req_symbol rq)
              | Quote r \<Rightarrow>
                  Some \<lparr> price = regularMarketPrice r,
                         change = js_minus (regularMarketPrice r) (chartPreviousClose r),
                         history = \<lparr>timestamp = result_timestamp r, close = quote_close r\<rparr> \<rparr>)))"
proof -
  let ?st' = "fst (fetchAllData env lag st)"
  let ?log = "batch_log st ?st'"
  have q: "quote_record r = \<lparr> price = regularMarketPrice r,
                     change = js_minus (regularMarketPrice r) (chartPreviousClose r),
                     history = \<lparr>timestamp = result_timestamp r, close = quote_close r\<rparr> \<rparr>" for r
    by (simp add: quote_record_def Let_def)
  have res: "snd (fetchAllData env lag st) = Resolved"
    and syms: "map req_symbol ?log = map symbol (portfolio st)"
    and ans: "list_all (answered env) ?log"
    and sd: "\<forall>sy. stockData ?st' sy =
         (case last_quote sy ?log of None \<Rightarrow> stockData st sy | Some r \<Rightarrow> Some (quote_record r))"
    using fetchAllData_run [of env lag st] by simp_all
  have "stockData ?st' (req_symbol rq) =
             (case answer rq of
                Throws err \<Rightarrow> stockData st (req_symbol rq)
              | Quote r \<Rightarrow> Some (quote_record r))"
    if d: "distinct (map symbol (portfolio st))" and m: "rq \<in> set ?log" for rq
  proof -
    have "distinct (map req_symbol ?log)" using d syms by simp
    then have "last_quote (req_symbol rq) ?log
        = (case answer rq of Throws err \<Rightarrow> None | Quote r \<Rightarrow> Some r)"
      using m by (rule last_quote_distinct)
    then show ?thesis
      using sd by (simp split: provider_answer.splits)
  qed
  then show ?thesis
    unfolding q [symmetric] using res syms ans sd by blast
qed

lemma fetchAllData_three_symbols:
  "distinct (map symbol (portfolio app3))
   \<and> snd (fetchAllData env0 (\<lambda>t. 7) app3) = Resolved
   \<and> map req_symbol (batch_log app3 (fst (fetchAllData env0 (\<lambda>t. 7) app3))) = [''A'', ''B'', ''C'']
   \<and> stockData (fst (fetchAllData env0 (\<lambda>t. 7) app3)) ''A''
       = Some \<lparr> price = Some 180, change = Some 5,
            history = \<lparr>timestamp = Arr [Num 1700000000], close = Arr [Num 180]\<rparr> \<rparr>
   \<and> stockData (fst (fetchAllData env0 (\<lambda>t. 7) app3)) ''B'' = None
   \<and> stockData (fst (fetchAllData env0 (\<lambda>t. 7) app3)) ''C''
       = Some \<lparr> price = Some 180, change = Some 5,
            history = \<lparr>timestamp = Arr [Num 1700000000], close = Arr [Num 180]\<rparr> \<rparr>"
proof -
  let ?st' = "fst (fetchAllData env0 (\<lambda>t. 7) app3)"
  have d: "distinct (map symbol (portfolio app3))"
    by (simp add: app3_def)
  have log: "batch_log app3 ?st' =
      [\<lparr>req_symbol = ''A'', issued = 0, settled = 30, answer = Quote quote0\<rparr>,
       \<lparr>req_symbol = ''B'', issued = 537, settled = 577, answer = Throws FetchFailed\<rparr>,
       \<lparr>req_symbol = ''C'', issued = 1084, settled = 1114, answer = Quote quote0\<rparr>]"
    using app3_requests by (simp add: fetchAllData_app3 batch_log_def)
  have before: "stockData app3 ''B'' = None"
    by (simp add: app3_def app0_def)
  have all: "snd (fetchAllData env0 (\<lambda>t. 7) app3) = Resolved
     \<and> map req_symbol (batch_log app3 ?st') = map symbol (portfolio app3)
     \<and> (\<forall>rq \<in> set (batch_log app3 ?st').
           stockData ?st' (req_symbol rq) =
             (case answer rq of
                Throws err \<Rightarrow> stockData app3 (req_symbol rq)
              | Quote r \<Rightarrow>
                  Some \<lparr> price = regularMarketPrice r,
                         change = js_minus (regularMarketPrice r) (chartPreviousClose r),
                         history = \<lparr>timestamp = result_timestamp r, close = quote_close r\<rparr> \<rparr>))"
    using fetchAllData_isolates_thrown_errors [of env0 "\<lambda>t. 7" app3] d by blast
  then have "stockData ?st' ''A'' = Some \<lparr> price = Some 180, change = Some 5,
            history = \<lparr>timestamp = Arr [Num 1700000000], close = Arr [Num 180]\<rparr> \<rparr>"
    "stockData ?st' ''B'' = None"
    "stockData ?st' ''C'' = Some \<lparr> price = Some 180, change = Some 5,
            history = \<lparr>timestamp = Arr [Num 1700000000], close = Arr [Num 180]\<rparr> \<rparr>"
    using before by (simp_all add: log quote0_def js_minus_def)
  moreover have "map req_symbol (batch_log app3 ?st') = [''A'', ''B'', ''C'']"
    using all by (simp add: app3_def)
  ultimately show ?thesis using d all by simp
qed

text \<open>
  Claim C7. The claim fails for an answer that has the shape the script reads but no
  prices in its \<open>meta\<close> (missing fields). Nothing throws on it:
  \<open>fetchStockData\<close> stores a record whose price is \<open>undefined\<close> and whose change is
  \<open>NaN\<close> over the entry the symbol had, reports nothing, and \<open>fetchAllData\<close> ends
  normally. The symbol \<open>A\<close> had the price 180 before the run and has none after it.
\<close>

theorem answer_without_prices_replaces_entry:
  "snd (fetchAllData env1 (\<lambda>t. 0) app1) = Resolved
   \<and> stockData app1 ''A''
       = Some \<lparr> price = Some 180, change = Some 5,
            history = \<lparr>timestamp = Arr [Num 1700000000], close = Arr [Num 180]\<rparr> \<rparr>
   \<and> stockData (fst (fetchAllData env1 (\<lambda>t. 0) app1)) ''A''
       = Some \<lparr> price = None, change = None,
            history = \<lparr>timestamp = Arr [Num 1700086400], close = Arr [Num 181]\<rparr> \<rparr>
   \<and> console (fst (fetchAllData env1 (\<lambda>t. 0) app1)) = []"
proof -
  have run: "fetchAllData env1 (\<lambda>t. 0) app1 =
     (app1\<lparr> stockData := (stockData app1)(''A'' \<mapsto> quote_record quote_no_price),
            now := 530,
            requests := [\<lparr>req_symbol = ''A'', issued = 0, settled = 30,
                           answer = Quote quote_no_price\<rparr>] \<rparr>,
      Resolved)"
    by (simp add: fetchAllData_def fetchStockData_def fetch_try_def env1_def app1_def app0_def)
  have q: "quote_record quote_no_price
      = \<lparr> price = None, change = None,
          history = \<lparr>timestamp = Arr [Num 1700086400], close = Arr [Num 181]\<rparr> \<rparr>"
    by (simp add: quote_record_def quote_no_price_def js_minus_def Let_def)
  have before: "stockData app1 ''A''
       = Some \<lparr> price = Some 180, change = Some 5,
            history = \<lparr>timestamp = Arr [Num 1700000000], close = Arr [Num 180]\<rparr> \<rparr>"
    and c: "console app1 = []"
    by (simp_all add: app1_def app0_def)
  show ?thesis
    unfolding run using q before c by simp
qed

text \<open>
  Claim C9. \<open>fetchAllData\<close> requests the symbols of the portfolio in order, one after
  the other: a request is issued when the one before has ended and 500 milliseconds or
  more have passed, so no two requests of the run overlap. A run over \<open>n\<close> symbols
  takes \<open>500 * n\<close> milliseconds or more (the delay follows the last request too), hence
  \<open>500 * (n - 1)\<close> or more.
\<close>

theorem fetchAllData_sequential:
  "snd (fetchAllData env lag st) = Resolved
   \<and> requests (fst (fetchAllData env lag st))
       = requests st @ batch_log st (fst (fetchAllData env lag st))
   \<and> map req_symbol (batch_log st (fst (fetchAllData env lag st))) = map symbol (portfolio st)
   \<and> spaced 500 (now st) (batch_log st (fst (fetchAllData env lag st)))
   \<and> now st + 500 * length (portfolio st) \<le> now (fst (fetchAllData env lag st))
   \<and> now st + 500 * (length (portfolio st) - 1) \<le> now (fst (fetchAllData env lag st))"
proof -
  have run: "snd (fetchAllData env lag st) = Resolved"
    "requests (fst (fetchAllData env lag st))
       = requests st @ batch_log st (fst (fetchAllData env lag st))"
    "map req_symbol (batch_log st (fst (fetchAllData env lag st))) = map symbol (portfolio st)"
    "spaced 500 (now st) (batch_log st (fst (fetchAllData env lag st)))"
    and t: "now st + 500 * length (portfolio st) \<le> now (fst (fetchAllData env lag st))"
    using fetchAllData_run [of env lag st] by simp_all
  have "500 * (length (portfolio st) - 1) \<le> 500 * length (portfolio st)"
    by simp
  then have "now st + 500 * (length (portfolio st) - 1) \<le> now (fst (fetchAllData env lag st))"
    using t by linarith
  then show ?thesis using run t by simp
qed

theorem fetchAllData_sequential_witness:
  "snd (fetchAllData env0 (\<lambda>t. 7) app3) = Resolved
   \<and> map req_symbol (batch_log app3 (fst (fetchAllData env0 (\<lambda>t. 7) app3))) = [''A'', ''B'', ''C'']
   \<and> spaced 500 0 (batch_log app3 (fst (fetchAllData env0 (\<lambda>t. 7) app3)))
   \<and> 1500 \<le> now (fst (fetchAllData env0 (\<lambda>t. 7) app3))
   \<and> now (fst (fetchAllData env0 (\<lambda>t. 7) app3)) = 1621"
proof -
  have n: "now app3 = 0" "length (portfolio app3) = 3"
    "map symbol (portfolio app3) = [''A'', ''B'', ''C'']"
    by (simp_all add: app3_def app0_def)
  have "now (fst (fetchAllData env0 (\<lambda>t. 7) app3)) = 1621"
    by (simp add: fetchAllData_app3)
  then show ?thesis
    using fetchAllData_sequential [of env0 "\<lambda>t. 7" app3] n by simp
qed

section \<open>Properties of import and export\<close>

lemma stock_of_obj: "stock_of (stock_obj s) = Some s"
  by (simp add: stock_of_def stock_obj_def)

lemma item_ok_stock_obj:
  "item_ok (stock_obj s) = Inr (symbol s \<noteq> [] \<and> qty s \<noteq> 0 \<and> cost s \<noteq> 0)"
  by (simp add: item_ok_def get_field_def stock_obj_def truthy_def)

lemma every_ok_stock_objs:
  "list_all (\<lambda>s. symbol s \<noteq> [] \<and> qty s \<noteq> 0 \<and> cost s \<noteq> 0) pf \<Longrightarrow>
   every_ok (map stock_obj pf) = Inr True"
  by (induction pf) (simp_all add: item_ok_stock_obj)

lemma cost_is_number_stock_obj: "cost_is_number (stock_obj s)"
  by (simp add: cost_is_number_def get_field_def stock_obj_def)

lemma renderTable_raw_stock_objs: "renderTable_raw (map stock_obj pf) = None"
  by (simp add: renderTable_raw_def list_all_iff cost_is_number_stock_obj)

lemma reader_onload_rejected:
  assumes "\<And>xs. parsed = Inr (Arr xs) \<Longrightarrow> every_ok xs \<noteq> Inr True"
  shows "items (reader_onload parsed confirmed pg) = items pg
    \<and> stored (reader_onload parsed confirmed pg) = stored pg
    \<and> batches (reader_onload parsed confirmed pg) = batches pg"
proof (cases parsed)
  case (Inl err)
  then show ?thesis by (simp add: reader_onload_def alert_def)
next
  case (Inr v)
  show ?thesis
  proof (cases v)
    case (Arr xs)
    then have "every_ok xs \<noteq> Inr True" using assms Inr by simp
    then show ?thesis
      using Inr Arr
      by (cases "every_ok xs") (auto simp: reader_onload_def alert_def)
  qed (simp_all add: Inr reader_onload_def alert_def)
qed

lemma string_cost_applied_then_reported:
  "reader_onload
     (Inr (Arr [Obj [(''symbol'', Str ''A''), (''qty'', Num 1), (''cost'', Str ''5'')]]))
     True page0
   = \<lparr> items = [Obj [(''symbol'', Str ''A''), (''qty'', Num 1), (''cost'', Str ''5'')]],
       stored = Some [Obj [(''symbol'', Str ''A''), (''qty'', Num 1), (''cost'', Str ''5'')]],
       alerts = [''Error parsing JSON file.''],
       batches = 0 \<rparr>"
  by (simp add: reader_onload_def item_ok_def get_field_def truthy_def renderTable_raw_def
      cost_is_number_def alert_def page0_def)

text \<open>
  Claim C5. A file that does not parse is reported with \<open>Error parsing JSON file.\<close>, a
  value that is not an array with \<open>Invalid file format: Not a list of stocks.\<close>, an
  element without a true \<open>symbol\<close>, \<open>qty\<close> or \<open>cost\<close> with
  \<open>Invalid file format: Missing required fields.\<close>, and none of them changes the
  portfolio (\<open>reader_onload_rejected\<close>). The array \<open>[null]\<close> is the exception to the
  third: \<open>every\<close> throws on the element, and the file is reported like one that does
  not parse, where the array \<open>[5]\<close> is reported with the missing fields.
\<close>

theorem null_element_reported_as_parse_error:
  "every_ok [Null] = Inl TypeError
   \<and> reader_onload (Inr (Arr [Null])) confirmed pg
       = pg\<lparr>alerts := alerts pg @ [''Error parsing JSON file.'']\<rparr>
   \<and> reader_onload (Inl SyntaxError) confirmed pg
       = pg\<lparr>alerts := alerts pg @ [''Error parsing JSON file.'']\<rparr>
   \<and> reader_onload (Inr (Arr [Num 5])) confirmed pg
       = pg\<lparr>alerts := alerts pg @ [''Invalid file format: Missing required fields.'']\<rparr>"
proof -
  have n: "item_ok Null = Inl TypeError"
    by (simp add: item_ok_def get_field_def)
  have f: "item_ok (Num 5) = Inr False"
    by (simp add: item_ok_def get_field_def truthy_def)
  have 1: "every_ok [Null] = Inl TypeError" using n by simp
  have 2: "every_ok [Num 5] = Inr False" using f by simp
  show ?thesis
    using 1 2 by (simp add: reader_onload_def alert_def)
qed

text \<open>
  The round trip of claim C6 fails for two valid portfolios: for the empty one
  nothing is exported, and a position of cost 0 is exported and then refused by the
  import, whose test reads the cost 0 as a missing field.
\<close>

theorem export_import_roundtrip_counterexample:
  "list_all valid_position []
   \<and> exportBtn_click [] = Inl ''No data to export!''
   \<and> list_all valid_position [\<lparr>symbol = ''AAPL'', qty = 10, cost = 0\<rparr>]
   \<and> exportBtn_click [\<lparr>symbol = ''AAPL'', qty = 10, cost = 0\<rparr>]
       = Inr (Arr [Obj [(''symbol'', Str ''AAPL''), (''qty'', Num 10), (''cost'', Num 0)]])
   \<and> reader_onload
        (Inr (Arr [Obj [(''symbol'', Str ''AAPL''), (''qty'', Num 10), (''cost'', Num 0)]]))
        True page0
       = page0\<lparr>alerts := [''Invalid file format: Missing required fields.'']\<rparr>"
proof -
  have v: "list_all valid_position [\<lparr>symbol = ''AAPL'', qty = 10, cost = 0\<rparr>]"
    by (simp add: valid_position_def)
  have e: "exportBtn_click [\<lparr>symbol = ''AAPL'', qty = 10, cost = 0\<rparr>]
       = Inr (Arr [Obj [(''symbol'', Str ''AAPL''), (''qty'', Num 10), (''cost'', Num 0)]])"
    by (simp add: exportBtn_click_def stock_obj_def)
  have i: "item_ok (Obj [(''symbol'', Str ''AAPL''), (''qty'', Num 10), (''cost'', Num 0)])
       = Inr False"
    by (simp add: item_ok_def get_field_def truthy_def)
  have r: "reader_onload
        (Inr (Arr [Obj [(''symbol'', Str ''AAPL''), (''qty'', Num 10), (''cost'', Num 0)]]))
        True page0
       = page0\<lparr>alerts := [''Invalid file format: Missing required fields.'']\<rparr>"
    using i by (simp add: reader_onload_def alert_def page0_def)
  show ?thesis
    using v e r by (simp add: exportBtn_click_def)
qed

text \<open>
  Claim C6, amended. For a portfolio that is not empty and whose positions are valid
  and have a cost above 0, the export writes the array of its positions, and the import
  of that array, when the user confirms, replaces the portfolio by the same positions
  in the same order, saves it and starts a refresh.
\<close>

theorem export_import_roundtrip:
  "pf \<noteq> [] \<and> list_all restorable pf \<longrightarrow>
     exportBtn_click pf = Inr (Arr (map stock_obj pf))
   \<and> reader_onload (Inr (Arr (map stock_obj pf))) True pg
       = pg\<lparr> items := map stock_obj pf, stored := Some (map stock_obj pf),
              alerts := alerts pg @ [''Portfolio restored successfully!''],
              batches := Suc (batches pg) \<rparr>
   \<and> map stock_of (map stock_obj pf) = map Some pf"
proof
  assume a: "pf \<noteq> [] \<and> list_all restorable pf"
  then have "list_all (\<lambda>s. symbol s \<noteq> [] \<and> qty s \<noteq> 0 \<and> cost s \<noteq> 0) pf"
    by (auto simp: list_all_iff restorable_def valid_position_def)
  then have ok: "every_ok (map stock_obj pf) = Inr True"
    by (rule every_ok_stock_objs)
  have ex: "exportBtn_click pf = Inr (Arr (map stock_obj pf))"
    using a by (simp add: exportBtn_click_def)
  have im: "reader_onload (Inr (Arr (map stock_obj pf))) True pg
       = pg\<lparr> items := map stock_obj pf, stored := Some (map stock_obj pf),
              alerts := alerts pg @ [''Portfolio restored successfully!''],
              batches := Suc (batches pg) \<rparr>"
    using ok by (simp add: reader_onload_def renderTable_raw_stock_objs alert_def)
  have de: "map stock_of (map stock_obj pf) = map Some pf"
    by (simp add: stock_of_obj)
  show "exportBtn_click pf = Inr (Arr (map stock_obj pf))
   \<and> reader_onload (Inr (Arr (map stock_obj pf))) True pg
       = pg\<lparr> items := map stock_obj pf, stored := Some (map stock_obj pf),
              alerts := alerts pg @ [''Portfolio restored successfully!''],
              batches := Suc (batches pg) \<rparr>
   \<and> map stock_of (map stock_obj pf) = map Some pf"
    using ex im de by simp
qed

theorem export_import_roundtrip_witness:
  "list_all restorable
     [\<lparr>symbol = ''AAPL'', qty = 10, cost = 150\<rparr>, \<lparr>symbol = ''MSFT'', qty = 5, cost = 200\<rparr>]
   \<and> items (reader_onload
        (Inr (Arr (map stock_obj
           [\<lparr>symbol = ''AAPL'', qty = 10, cost = 150\<rparr>, \<lparr>symbol = ''MSFT'', qty = 5, cost = 200\<rparr>])))
        True page0)
       = [Obj [(''symbol'', Str ''AAPL''), (''qty'', Num 10), (''cost'', Num 150)],
          Obj [(''symbol'', Str ''MSFT''), (''qty'', Num 5), (''cost'', Num 200)]]
   \<and> alerts (reader_onload
        (Inr (Arr (map stock_obj
           [\<lparr>symbol = ''AAPL'', qty = 10, cost = 150\<rparr>, \<lparr>symbol = ''MSFT'', qty = 5, cost = 200\<rparr>])))
        True page0)
       = [''Portfolio restored successfully!'']"
proof -
  let ?pf = "[\<lparr>symbol = ''AAPL'', qty = 10, cost = 150\<rparr>, \<lparr>symbol = ''MSFT'', qty = 5, cost = 200\<rparr>]"
  have v: "list_all restorable ?pf"
    by (simp add: restorable_def valid_position_def)
  have ne: "?pf \<noteq> []" by simp
  have p: "alerts page0 = []" by (simp add: page0_def)
  have "reader_onload (Inr (Arr (map stock_obj ?pf))) True page0
       = page0\<lparr> items := map stock_obj ?pf, stored := Some (map stock_obj ?pf),
              alerts := alerts page0 @ [''Portfolio restored successfully!''],
              batches := Suc (batches page0) \<rparr>"
    using export_import_roundtrip [of ?pf page0] v ne by blast
  then show ?thesis
    using v p by (simp add: stock_obj_def)
qed


end
